theory Spec2Isabelle
  imports Complex_Main "HOL-Library.Sublist"
begin

section \<open>JavaScript primitives used by the module\<close>

text \<open>
  Text is modelled as \<open>string\<close> over ASCII. \<open>toLowerCase\<close> maps the letters A-Z to a-z and
  leaves every other character alone, which is what \<open>String.prototype.toLowerCase\<close> does on
  ASCII text.
\<close>

definition toLowerChar :: "char \<Rightarrow> char" where
  "toLowerChar c =
     (case map_of (zip ''ABCDEFGHIJKLMNOPQRSTUVWXYZ'' ''abcdefghijklmnopqrstuvwxyz'') c of
        None \<Rightarrow> c
      | Some d \<Rightarrow> d)"

definition toLowerCase :: "string \<Rightarrow> string" where
  "toLowerCase s = map toLowerChar s"

text \<open>\<open>s.includes(t)\<close>: \<open>t\<close> occurs in \<open>s\<close> as a contiguous run of characters.\<close>

fun strIncludes :: "string \<Rightarrow> string \<Rightarrow> bool" where
  "strIncludes [] t = (t = [])"
| "strIncludes (c # cs) t = (prefix t (c # cs) \<or> strIncludes cs t)"

text \<open>\<open>xs.join(sep)\<close>.\<close>

fun join :: "string \<Rightarrow> string list \<Rightarrow> string" where
  "join sep [] = []"
| "join sep [x] = x"
| "join sep (x # y # ys) = x @ sep @ join sep (y # ys)"

text \<open>
  The word characters of a regular expression (\<open>\w\<close>): letters, digits and the underscore.
\<close>

definition isWordChar :: "char \<Rightarrow> bool" where
  "isWordChar c =
     (c \<in> set ''abcdefghijklmnopqrstuvwxyzABCDEFGHIJKLMNOPQRSTUVWXYZ0123456789_'')"

text \<open>
  \<open>new RegExp('\\bw\\b', 'i').test(s)\<close> for a pattern word \<open>w\<close> that begins and ends with a
  word character (every descriptor of the module does). The word matches at a position when
  the text continues with \<open>w\<close> there, the character before the position is not a word
  character (or the position is the start of the text) and the character after the match is
  not a word character (or the match ends the text). The flag \<open>i\<close> compares letters without
  regard to case.
\<close>

definition wordAt :: "string \<Rightarrow> string \<Rightarrow> bool" where
  "wordAt w s =
     (prefix w s \<and> (case drop (length w) s of [] \<Rightarrow> True | c # _ \<Rightarrow> \<not> isWordChar c))"

fun scanWord :: "bool \<Rightarrow> string \<Rightarrow> string \<Rightarrow> bool" where
  "scanWord prevWord w [] = False"
| "scanWord prevWord w (c # cs) =
     ((\<not> prevWord \<and> wordAt w (c # cs)) \<or> scanWord (isWordChar c) w cs)"

definition regexWordTest :: "string \<Rightarrow> string \<Rightarrow> bool" where
  "regexWordTest w s = scanWord False (toLowerCase w) (toLowerCase s)"

text \<open>
  Numbers. Counts and attempt numbers are integers. A pain score is a finite double, carried
  as the rational number it denotes. The template literal \<open>${n}\<close> renders an integer in
  decimal digits with a leading minus sign when negative, and a non-integer with a finite
  decimal expansion as the integer part, a point and the fractional digits (\<open>4.5\<close>), which is
  what JavaScript prints for integers below \<open>10^21\<close> and for short decimals.
\<close>

definition digitChar :: "nat \<Rightarrow> char" where
  "digitChar d = ''0123456789'' ! d"

fun digitsOf :: "nat \<Rightarrow> string" where
  "digitsOf n = (if n < 10 then [digitChar n] else digitsOf (n div 10) @ [digitChar (n mod 10)])"

declare digitsOf.simps [simp del]

definition intToString :: "int \<Rightarrow> string" where
  "intToString i = (if i < 0 then ''-'' @ digitsOf (nat (- i)) else digitsOf (nat i))"

fun fracDigits :: "nat \<Rightarrow> rat \<Rightarrow> string" where
  "fracDigits 0 r = []"
| "fracDigits (Suc k) r =
     (if r = 0 then []
      else digitChar (nat \<lfloor>r * 10\<rfloor>) # fracDigits k (r * 10 - of_int \<lfloor>r * 10\<rfloor>))"

definition numberToString :: "rat \<Rightarrow> string" where
  "numberToString q =
     (let a = \<bar>q\<bar>; n = \<lfloor>a\<rfloor>; f = a - of_int n
      in (if q < 0 then ''-'' else []) @ digitsOf (nat n)
         @ (if f = 0 then [] else ''.'' @ fracDigits 17 f))"

text \<open>\<open>Math.round\<close>: the nearest integer, a half rounding up.\<close>

definition mathRound :: "rat \<Rightarrow> int" where
  "mathRound q = \<lfloor>q + 1 / 2\<rfloor>"

text \<open>\<open>a || b\<close> on an optional number: an absent value and the number zero are both falsy.\<close>

definition orDefault :: "int option \<Rightarrow> int \<Rightarrow> int" where
  "orDefault a b = (case a of None \<Rightarrow> b | Some v \<Rightarrow> if v = 0 then b else v)"

section \<open>Double arithmetic\<close>

text \<open>
  The result of an arithmetic operation on doubles is the exact result rounded to the nearest
  double, a tie going to the even significand, and an infinity when the rounded magnitude
  reaches \<open>2^1024\<close>. A finite double is \<open>m * 2^e\<close> with \<open>|m| < 2^53\<close> and \<open>-1074 \<le> e \<le> 971\<close>.
\<close>

datatype jsNumber = Finite rat | PosInfinity | NegInfinity

text \<open>The nearest integer, a tie going to the even one.\<close>

definition roundHalfEven :: "rat \<Rightarrow> int" where
  "roundHalfEven x =
     (let f = \<lfloor>x\<rfloor>; d = x - of_int f
      in if d < 1 / 2 then f
         else if 1 / 2 < d then f + 1
         else if even f then f else f + 1)"

text \<open>
  The exponent of the grid on which a magnitude \<open>a\<close> is rounded: the least \<open>e\<close> from \<open>-1074\<close> on
  with \<open>a < 2^53 * 2^e\<close> (the search starts at \<open>-1074\<close>, the exponent of the subnormal numbers,
  and has no need to pass \<open>971\<close>).
\<close>

function findExponent :: "int \<Rightarrow> rat \<Rightarrow> int" where
  "findExponent e a = (if a < 2 ^ 53 * 2 powi e \<or> 971 \<le> e then e else findExponent (e + 1) a)"
  by pat_completeness auto
termination
  by (relation "measure (\<lambda>(e, a). nat (971 - e))") auto

declare findExponent.simps [simp del]

definition roundDouble :: "rat \<Rightarrow> jsNumber" where
  "roundDouble q =
     (let a = \<bar>q\<bar>
      in if 2 ^ 1024 \<le> a then (if q < 0 then NegInfinity else PosInfinity)
         else let e = findExponent (- 1074) a;
                  r = of_int (roundHalfEven (a / 2 powi e)) * 2 powi e
              in if 2 ^ 1024 \<le> r then (if q < 0 then NegInfinity else PosInfinity)
                 else Finite (if q < 0 then - r else r))"

text \<open>\<open>a + b\<close> on two finite doubles, and \<open>x / 2\<close>.\<close>

definition jsAdd :: "rat \<Rightarrow> rat \<Rightarrow> jsNumber" where
  "jsAdd a b = roundDouble (a + b)"

definition jsHalf :: "jsNumber \<Rightarrow> jsNumber" where
  "jsHalf x =
     (case x of
        Finite r \<Rightarrow> roundDouble (r / 2)
      | PosInfinity \<Rightarrow> PosInfinity
      | NegInfinity \<Rightarrow> NegInfinity)"

section \<open>Data model\<close>

record BodyMap =
  region :: string
  painScore :: rat
  timestamp :: int

record DateRange =
  rangeStart :: int
  rangeEnd :: int

record RegionSummary =
  summaryRegion :: string
  summaryPeriod :: string
  frequency :: int
  medianScore :: jsNumber
  totalEntries :: int
  dateRange :: "DateRange option"

type_synonym PainDataMaps = "string \<rightharpoonup> BodyMap list"

record Config =
  apiKey :: string
  configMaxRetries :: "int option"
  configRetryDelay :: "int option"

record SummaryOptions =
  optMaxRetries :: "int option"
  optRetryDelay :: "int option"
  optFallbackEnabled :: "bool option"
  optEnableValidation :: "bool option"

record ValidationResult =
  isValid :: bool
  errors :: "string list"
  warnings :: "string list"

text \<open>The instance fields set by the constructor.\<close>

record MapSummaryGeneration =
  thisApiKey :: string
  thisMaxRetries :: int
  thisRetryDelay :: int

definition constructor :: "Config \<Rightarrow> MapSummaryGeneration" where
  "constructor config =
     \<lparr> thisApiKey = apiKey config,
       thisMaxRetries = orDefault (configMaxRetries config) 3,
       thisRetryDelay = orDefault (configRetryDelay config) 1000 \<rparr>"

section \<open>Statistics: sumRegion and calculateMedian\<close>

text \<open>
  Reading \<open>maps[period]\<close>. The mapping is a plain object whose own properties are the periods
  it holds. A name that is not an own property is looked up in \<open>Object.prototype\<close>, whose
  members (functions, and for \<open>__proto__\<close> the prototype object itself) every plain object
  inherits; only a name found in neither place reads as \<open>undefined\<close>.
\<close>

datatype jsError = TypeError

datatype property = Own "BodyMap list" | Inherited | Undefined

definition objectPrototypeMembers :: "string list" where
  "objectPrototypeMembers =
     [''constructor'', ''__defineGetter__'', ''__defineSetter__'', ''hasOwnProperty'',
      ''__lookupGetter__'', ''__lookupSetter__'', ''isPrototypeOf'', ''propertyIsEnumerable'',
      ''toString'', ''valueOf'', ''__proto__'', ''toLocaleString'']"

definition getProperty :: "PainDataMaps \<Rightarrow> string \<Rightarrow> property" where
  "getProperty maps key =
     (case maps key of
        Some es \<Rightarrow> Own es
      | None \<Rightarrow> if key \<in> set objectPrototypeMembers then Inherited else Undefined)"

text \<open>
  \<open>calculateMedian\<close> on the sorted scores. The sum of the two middle scores is a double
  addition and the division by 2 a double division.
\<close>

definition calculateMedian :: "rat list \<Rightarrow> jsNumber" where
  "calculateMedian sortedArray =
     (let len = length sortedArray
      in if len = 0 then Finite 0
         else let middle = len div 2
              in if len mod 2 = 0
                 then jsHalf (jsAdd (sortedArray ! (middle - 1)) (sortedArray ! middle))
                 else Finite (sortedArray ! middle))"

text \<open>
  \<open>sumRegion\<close>. In \<open>maps[period] || []\<close> an own array is truthy and is kept, \<open>undefined\<close> gives
  the empty array, and an inherited member is truthy and is kept as well: it has no method
  \<open>filter\<close>, so the call \<open>periodData.filter(...)\<close> throws a \<open>TypeError\<close>. The comparator
  \<open>(a, b) => a - b\<close> has the sign of the exact difference on finite doubles, so the sort is the
  ascending sort of the values.
\<close>

definition sumRegion :: "string \<Rightarrow> PainDataMaps \<Rightarrow> string \<Rightarrow> jsError + RegionSummary" where
  "sumRegion period maps reg =
     (let member = getProperty maps period
      in if member = Inherited then Inl TypeError
         else
           let periodData = (case member of Own es \<Rightarrow> es | _ \<Rightarrow> []);
               regionData = filter (\<lambda>entry. region entry = reg) periodData
           in if length regionData = 0
              then Inr \<lparr> summaryRegion = reg, summaryPeriod = period, frequency = 0,
                         medianScore = Finite 0, totalEntries = 0, dateRange = None \<rparr>
              else let freq = int (length regionData);
                       scores = sort (map painScore regionData);
                       median = calculateMedian scores;
                       timestamps = sort (map timestamp regionData);
                       range = (if length timestamps > 0
                                then Some \<lparr> rangeStart = timestamps ! 0,
                                            rangeEnd = timestamps ! (length timestamps - 1) \<rparr>
                                else None)
                   in Inr \<lparr> summaryRegion = reg, summaryPeriod = period, frequency = freq,
                            medianScore = median, totalEntries = int (length regionData),
                            dateRange = range \<rparr>)"

text \<open>
  The median as the specification words it: over the severities sorted ascending, the middle
  element for an odd count and the arithmetic mean of the two middle elements for an even
  count.
\<close>

definition textbookMedian :: "rat list \<Rightarrow> rat" where
  "textbookMedian xs =
     (let s = sort xs; n = length s
      in if odd n then s ! (n div 2) else (s ! (n div 2 - 1) + s ! (n div 2)) / 2)"

text \<open>The entries of a period whose region is exactly the requested one.\<close>

definition matchingEntries :: "string \<Rightarrow> PainDataMaps \<Rightarrow> string \<Rightarrow> BodyMap list" where
  "matchingEntries period maps reg =
     filter (\<lambda>entry. region entry = reg) (case maps period of None \<Rightarrow> [] | Some es \<Rightarrow> es)"

text \<open>
  The median as double arithmetic computes it: the middle element for an odd count, and for
  an even count the sum of the two middle elements rounded to a double, halved.
\<close>

definition doubleMedian :: "rat list \<Rightarrow> jsNumber" where
  "doubleMedian xs =
     (let s = sort xs; n = length s
      in if odd n then Finite (s ! (n div 2))
         else jsHalf (jsAdd (s ! (n div 2 - 1)) (s ! (n div 2))))"

text \<open>The rationals that are finite doubles.\<close>

definition isDouble :: "rat \<Rightarrow> bool" where
  "isDouble q = (\<exists>m e. \<bar>m\<bar> < 2 ^ 53 \<and> - 1074 \<le> e \<and> e \<le> 971 \<and> q = of_int m * 2 powi e)"

text \<open>
  The mean of the two middle scores needs no rounding: the count is odd, or their sum and its
  half are doubles.
\<close>

definition meanRepresentable :: "rat list \<Rightarrow> bool" where
  "meanRepresentable xs =
     (let s = sort xs; n = length s
      in odd n \<or> (isDouble (s ! (n div 2 - 1) + s ! (n div 2))
                   \<and> isDouble ((s ! (n div 2 - 1) + s ! (n div 2)) / 2)))"

section \<open>The output validator\<close>

definition bodyRegions :: "string list" where
  "bodyRegions =
     [''lower back'', ''upper back'', ''back'', ''neck'', ''shoulder'', ''shoulders'',
      ''arm'', ''arms'', ''elbow'', ''elbows'', ''wrist'', ''wrists'', ''hand'', ''hands'',
      ''hip'', ''hips'', ''knee'', ''knees'', ''ankle'', ''ankles'', ''foot'', ''feet'',
      ''leg'', ''legs'', ''chest'', ''abdomen'', ''head'', ''jaw'', ''face'']"

record RegionValidation =
  valid :: bool
  error :: "string option"

text \<open>The filter of \<open>validateRegionMention\<close> that collects the foreign regions of the text.\<close>

definition hallucinatedRegions :: "string \<Rightarrow> string \<Rightarrow> string list" where
  "hallucinatedRegions summaryLower expectedRegionLower =
     filter (\<lambda>r. let regionLower = toLowerCase r
                 in if strIncludes expectedRegionLower regionLower
                       \<or> strIncludes regionLower expectedRegionLower
                    then False
                    else strIncludes summaryLower regionLower) bodyRegions"

definition validateRegionMention :: "string \<Rightarrow> string \<Rightarrow> RegionValidation" where
  \<open>validateRegionMention summary expectedRegion =
     (let summaryLower = toLowerCase summary;
          expectedRegionLower = toLowerCase expectedRegion;
          expectedMentioned = strIncludes summaryLower expectedRegionLower;
          hallucinated = hallucinatedRegions summaryLower expectedRegionLower
      in if \<not> expectedMentioned \<and> length hallucinated = 0
         then \<lparr> valid = True, error = None \<rparr>
         else if length hallucinated > 0
         then \<lparr> valid = False,
                error = Some (''Hallucinated region(s) detected: "'' @ join ''", "'' hallucinated
                              @ ''" (expected only "'' @ expectedRegion @ ''")'') \<rparr>
         else \<lparr> valid = True, error = None \<rparr>)\<close>

definition numberWords :: "string list" where
  "numberWords =
     [''zero'', ''one'', ''two'', ''three'', ''four'', ''five'', ''six'', ''seven'', ''eight'',
      ''nine'', ''ten'']"

text \<open>\<open>numberWords[i]\<close>: undefined outside the indices 0 to 10.\<close>

definition numberWordAt :: "int \<Rightarrow> string option" where
  "numberWordAt i = (if 0 \<le> i \<and> i < int (length numberWords) then Some (numberWords ! nat i) else None)"

text \<open>\<open>.filter(Boolean)\<close> on a list of possibly undefined strings: drops undefined and empty ones.\<close>

definition filterBoolean :: "string option list \<Rightarrow> string list" where
  "filterBoolean xs =
     concat (map (\<lambda>x. case x of None \<Rightarrow> [] | Some v \<Rightarrow> if v = [] then [] else [v]) xs)"

record NumericalValidation =
  frequencyFound :: bool
  medianFound :: bool

text \<open>
  The regular expression \<open>frequencyPattern\<close> of the source is built and never applied; the
  result comes from the two lists of variations alone.
\<close>

definition frequencyVariations :: "int \<Rightarrow> string list" where
  "frequencyVariations freq =
     filterBoolean
       [Some (intToString freq),
        Some (intToString freq @ '' time''),
        Some (intToString freq @ '' entr''),
        Some (intToString freq @ '' occurrence''),
        Some (intToString freq @ '' instance''),
        numberWordAt freq]"

definition medianPatterns :: "rat \<Rightarrow> string list" where
  "medianPatterns median =
     (let medianInt = mathRound median
      in filterBoolean
           [Some (numberToString median),
            Some (intToString medianInt),
            Some (numberToString median @ ''/10''),
            Some (intToString medianInt @ ''/10''),
            Some (numberToString median @ '' out of 10''),
            Some (intToString medianInt @ '' out of 10''),
            numberWordAt medianInt])"

definition validateNumericalData :: "string \<Rightarrow> int \<Rightarrow> rat \<Rightarrow> NumericalValidation" where
  "validateNumericalData summary freq median =
     (let summaryLower = toLowerCase summary
      in \<lparr> frequencyFound =
             list_ex (\<lambda>variation. strIncludes summaryLower (toLowerCase variation))
               (frequencyVariations freq),
           medianFound =
             list_ex (\<lambda>pattern. strIncludes summaryLower (toLowerCase pattern))
               (medianPatterns median) \<rparr>)"

definition frequencyLow :: "string list" where
  "frequencyLow = [''low'', ''rare'', ''infrequent'', ''occasional'', ''few'', ''minimal'']"

definition frequencyHigh :: "string list" where
  "frequencyHigh = [''high'', ''frequent'', ''often'', ''many'', ''numerous'', ''considerable'']"

definition severityLow :: "string list" where
  "severityLow = [''mild'', ''slight'', ''minimal'', ''minor'']"

definition severityHigh :: "string list" where
  "severityHigh = [''severe'', ''intense'', ''extreme'', ''major'', ''substantial'']"

text \<open>
  Each \<open>for\<close> loop of \<open>validateLogicalConsistency\<close> pushes one warning at the first descriptor
  whose pattern matches and breaks: one warning when some descriptor matches, none otherwise.
\<close>

definition anyDescriptor :: "string list \<Rightarrow> string \<Rightarrow> bool" where
  "anyDescriptor descs summaryLower = list_ex (\<lambda>desc. regexWordTest desc summaryLower) descs"

definition frequencyWarning :: "int \<Rightarrow> string \<Rightarrow> string \<Rightarrow> string" where
  \<open>frequencyWarning freq band family =
     ''Inconsistent frequency: frequency is '' @ intToString freq @ '' ('' @ band
       @ '') but summary uses "'' @ family @ ''" descriptor''\<close>

definition severityWarning :: "rat \<Rightarrow> string \<Rightarrow> string \<Rightarrow> string" where
  \<open>severityWarning median band family =
     ''Inconsistent severity: median score is '' @ numberToString median @ ''/10 ('' @ band
       @ '') but summary uses "'' @ family @ ''" descriptor''\<close>

definition validateLogicalConsistency :: "string \<Rightarrow> int \<Rightarrow> rat \<Rightarrow> string list" where
  "validateLogicalConsistency summary freq median =
     (let summaryLower = toLowerCase summary;
          frequencyPart =
            (if freq \<le> 2
             then (if anyDescriptor frequencyHigh summaryLower
                   then [frequencyWarning freq ''low'' ''high''] else [])
             else if freq \<ge> 7
             then (if anyDescriptor frequencyLow summaryLower
                   then [frequencyWarning freq ''high'' ''low''] else [])
             else []);
          severityPart =
            (if median \<le> 3
             then (if anyDescriptor severityHigh summaryLower
                   then [severityWarning median ''mild'' ''severe''] else [])
             else if median \<ge> 7
             then (if anyDescriptor severityLow summaryLower
                   then [severityWarning median ''severe'' ''mild''] else [])
             else [])
      in frequencyPart @ severityPart)"

definition medicalAdvicePhrases :: "string list" where
  "medicalAdvicePhrases =
     [''should see a doctor'', ''consult a physician'', ''seek medical attention'',
      ''recommend treatment'', ''diagnosis'', ''prescribe'', ''medication'',
      ''you should take'', ''try this treatment'', ''this indicates'',
      ''this suggests you have'', ''you may have'', ''likely suffering from'',
      ''probably have'', ''could be a sign of'']"

record MedicalAdviceCheck =
  found :: bool
  phrases :: "string list"

definition checkForMedicalAdvice :: "string \<Rightarrow> MedicalAdviceCheck" where
  "checkForMedicalAdvice summary =
     (let summaryLower = toLowerCase summary;
          foundPhrases = filter (\<lambda>phrase. strIncludes summaryLower phrase) medicalAdvicePhrases
      in \<lparr> found = length foundPhrases > 0, phrases = foundPhrases \<rparr>)"

text \<open>
  \<open>validateSummary\<close> starts from empty \<open>errors\<close> and \<open>warnings\<close> and lets the five checks push
  onto them in turn; each list is written here as the pushes in their order.
\<close>

definition validateSummary :: "string \<Rightarrow> string \<Rightarrow> int \<Rightarrow> rat \<Rightarrow> string \<Rightarrow> ValidationResult" where
  \<open>validateSummary summary reg freq median period =
     (let regionValidation = validateRegionMention summary reg;
          errors1 = (if \<not> valid regionValidation
                     then (case error regionValidation of None \<Rightarrow> [] | Some e \<Rightarrow> [e])
                     else []);
          numericalValidation = validateNumericalData summary freq median;
          errors2 = (if \<not> frequencyFound numericalValidation
                     then [''Missing frequency data: Expected mention of '' @ intToString freq
                           @ '' entries/occurrences'']
                     else []);
          errors3 = (if \<not> medianFound numericalValidation
                     then [''Missing median score data: Expected mention of score ''
                           @ numberToString median @ ''/10'']
                     else []);
          consistencyValidation = validateLogicalConsistency summary freq median;
          warnings1 = (if length consistencyValidation > 0 then consistencyValidation else []);
          medicalAdviceCheck = checkForMedicalAdvice summary;
          warnings2 = (if found medicalAdviceCheck
                       then [''Possible medical advice detected: "''
                             @ join ''", "'' (phrases medicalAdviceCheck) @ ''"'']
                       else []);
          errors4 = (if length summary < 20
                     then [''Summary too short (less than 20 characters)''] else []);
          warnings3 = (if length summary > 1000
                       then [''Summary might be too verbose (over 1000 characters)''] else []);
          errs = errors1 @ errors2 @ errors3 @ errors4
      in \<lparr> isValid = (length errs = 0),
           errors = errs,
           warnings = warnings1 @ warnings2 @ warnings3 \<rparr>)\<close>

section \<open>The fallback generator\<close>

definition getSeverityDescription :: "rat \<Rightarrow> string" where
  "getSeverityDescription score =
     (if score \<le> 2 then ''mild''
      else if score \<le> 4 then ''moderate''
      else if score \<le> 6 then ''moderate to severe''
      else if score \<le> 8 then ''severe''
      else ''very severe'')"

definition generateFallbackSummary :: "string \<Rightarrow> string \<Rightarrow> int \<Rightarrow> rat \<Rightarrow> string" where
  "generateFallbackSummary period reg freq median =
     (if freq = 0
      then ''You haven't logged any pain data for your '' @ toLowerCase reg @ '' during ''
           @ toLowerCase period
           @ '' yet. When you start tracking this region, your data will appear here.''
      else let severity = getSeverityDescription median;
               frequencyDesc = (if freq = 1 then ''entry'' else ''entries'')
           in ''During '' @ toLowerCase period @ '', you recorded '' @ intToString freq
              @ '' pain '' @ frequencyDesc @ '' for your '' @ toLowerCase reg
              @ '', with a median pain level of '' @ numberToString median @ ''/10 (''
              @ severity @ ''). This data helps track your pain patterns over time.'')"

section \<open>The generation capability and the retry loop\<close>

text \<open>
  The text-generation service is outside the module. A run is given the service's answers one
  per invocation: \<open>llm n\<close> is what the \<open>n\<close>-th call of \<open>generateContent\<close> yields, \<open>Inl\<close> the
  message of the error it throws and \<open>Inr\<close> the raw text of its response. The prompt is the
  same at every attempt of a run and has no part in the control flow, so it is left out.
\<close>

definition isSpaceChar :: "char \<Rightarrow> bool" where
  "isSpaceChar c = (c \<in> set [CHR '' '', CHR 0x09, CHR 0x0A, CHR 0x0B, CHR 0x0C, CHR 0x0D])"

definition trim :: "string \<Rightarrow> string" where
  "trim s = rev (dropWhile isSpaceChar (rev (dropWhile isSpaceChar s)))"

definition callGeminiAPI :: "string + string \<Rightarrow> string + string" where
  "callGeminiAPI response =
     (case response of
        Inl message \<Rightarrow> Inl message
      | Inr raw \<Rightarrow>
          (let text = trim raw
           in if text = [] then Inl ''Empty response from Gemini API'' else Inr text))"

text \<open>
  What a run of \<open>summariseWithAI\<close> leaves behind: the string it returns (\<open>Inr\<close>) or the
  message of the error it throws (\<open>Inl\<close>), the number of invocations of the capability, and
  the waits between attempts in milliseconds.
\<close>

record Run =
  outcome :: "string + string"
  apiCalls :: nat
  delays :: "int list"

function attemptLoop ::
  "string \<Rightarrow> string \<Rightarrow> int \<Rightarrow> rat \<Rightarrow> int \<Rightarrow> int \<Rightarrow> bool \<Rightarrow> bool
     \<Rightarrow> (nat \<Rightarrow> string + string) \<Rightarrow> int \<Rightarrow> nat \<Rightarrow> int list \<Rightarrow> Run" where
  "attemptLoop period reg freq median maxRetries retryDelay fallbackEnabled enableValidation
       llm attempt calls waits =
     (if attempt \<le> maxRetries
      then (case callGeminiAPI (llm (Suc calls)) of
              Inr summary \<Rightarrow>
                (if enableValidation
                 then (let validation = validateSummary summary reg freq median period
                       in if \<not> isValid validation
                          then (if length (errors validation) > 0 \<and> attempt < maxRetries
                                then attemptLoop period reg freq median maxRetries retryDelay
                                       fallbackEnabled enableValidation llm (attempt + 1)
                                       (Suc calls) (waits @ [retryDelay])
                                else if length (errors validation) > 0 \<and> fallbackEnabled
                                then \<lparr> outcome = Inr (generateFallbackSummary period reg freq median),
                                       apiCalls = Suc calls, delays = waits \<rparr>
                                else \<lparr> outcome = Inr summary, apiCalls = Suc calls,
                                       delays = waits \<rparr>)
                          else \<lparr> outcome = Inr summary, apiCalls = Suc calls, delays = waits \<rparr>)
                 else \<lparr> outcome = Inr summary, apiCalls = Suc calls, delays = waits \<rparr>)
            | Inl message \<Rightarrow>
                (if attempt = maxRetries
                 then (if fallbackEnabled
                       then \<lparr> outcome = Inr (generateFallbackSummary period reg freq median),
                              apiCalls = Suc calls, delays = waits \<rparr>
                       else \<lparr> outcome = Inl (''Failed to generate summary after ''
                                             @ intToString maxRetries @ '' attempts: '' @ message),
                              apiCalls = Suc calls, delays = waits \<rparr>)
                 else attemptLoop period reg freq median maxRetries retryDelay fallbackEnabled
                        enableValidation llm (attempt + 1) (Suc calls)
                        (waits @ [retryDelay * attempt])))
      else \<lparr> outcome = Inl ''Unexpected error in summariseWithAI'', apiCalls = calls,
             delays = waits \<rparr>)"
  by pat_completeness auto
termination
  by (relation "measure (\<lambda>(period, reg, freq, median, maxRetries, retryDelay, fallbackEnabled,
        enableValidation, llm, attempt, calls, waits). nat (maxRetries + 1 - attempt))") auto

declare attemptLoop.simps [simp del]

definition summariseWithAI ::
  "MapSummaryGeneration \<Rightarrow> string \<Rightarrow> string \<Rightarrow> int \<Rightarrow> rat \<Rightarrow> SummaryOptions
     \<Rightarrow> (nat \<Rightarrow> string + string) \<Rightarrow> Run" where
  "summariseWithAI this period reg freq median options llm =
     (let maxRetries = orDefault (optMaxRetries options) (thisMaxRetries this);
          retryDelay = orDefault (optRetryDelay options) (thisRetryDelay this);
          fallbackEnabled = (optFallbackEnabled options \<noteq> Some False);
          enableValidation = (optEnableValidation options \<noteq> Some False)
      in attemptLoop period reg freq median maxRetries retryDelay fallbackEnabled
           enableValidation llm 1 0 [])"

section \<open>Sample inputs\<close>

text \<open>A week of entries: seven for the region \<open>Lower Back\<close> among entries of other regions.\<close>

definition lowerBackWeek :: "BodyMap list" where
  "lowerBackWeek =
     [\<lparr>region = ''Lower Back'', painScore = 7, timestamp = 1\<rparr>,
      \<lparr>region = ''Lower Back'', painScore = 6, timestamp = 2\<rparr>,
      \<lparr>region = ''Neck'', painScore = 2, timestamp = 2\<rparr>,
      \<lparr>region = ''Lower Back'', painScore = 8, timestamp = 3\<rparr>,
      \<lparr>region = ''Lower Back'', painScore = 5, timestamp = 4\<rparr>,
      \<lparr>region = ''lower back'', painScore = 1, timestamp = 4\<rparr>,
      \<lparr>region = ''Lower Back'', painScore = 8, timestamp = 5\<rparr>,
      \<lparr>region = ''Lower Back'', painScore = 8, timestamp = 6\<rparr>,
      \<lparr>region = ''Lower Back'', painScore = 9, timestamp = 7\<rparr>]"

text \<open>A month with six entries for \<open>Lower Back\<close>, and a week with the scores 0.1 and 0.2.\<close>

definition lowerBackMonth :: "BodyMap list" where
  "lowerBackMonth =
     [\<lparr>region = ''Lower Back'', painScore = 5, timestamp = 1\<rparr>,
      \<lparr>region = ''Lower Back'', painScore = 4, timestamp = 2\<rparr>,
      \<lparr>region = ''Lower Back'', painScore = 6, timestamp = 3\<rparr>,
      \<lparr>region = ''Shoulders'', painScore = 2, timestamp = 3\<rparr>,
      \<lparr>region = ''Lower Back'', painScore = 3, timestamp = 4\<rparr>,
      \<lparr>region = ''Lower Back'', painScore = 4, timestamp = 5\<rparr>,
      \<lparr>region = ''Lower Back'', painScore = 5, timestamp = 6\<rparr>]"

definition tenth :: rat where
  "tenth = 3602879701896397 / 2 ^ 55"

definition fifth :: rat where
  "fifth = 3602879701896397 / 2 ^ 54"

definition tenthsWeek :: "BodyMap list" where
  "tenthsWeek =
     [\<lparr>region = ''Neck'', painScore = tenth, timestamp = 1\<rparr>,
      \<lparr>region = ''Neck'', painScore = fifth, timestamp = 2\<rparr>]"

text \<open>An instance built from a configuration that sets the key only, and empty options.\<close>

definition defaultInstance :: MapSummaryGeneration where
  "defaultInstance =
     constructor \<lparr> apiKey = ''key'', configMaxRetries = None, configRetryDelay = None \<rparr>"


definition defaultOptions :: SummaryOptions where
  "defaultOptions =
     \<lparr> optMaxRetries = None, optRetryDelay = None, optFallbackEnabled = None,
       optEnableValidation = None \<rparr>"

text \<open>
  A candidate that states both numbers and the region, and uses a low-frequency and a
  high-severity descriptor; and a service that fails on its first call and answers with this
  candidate afterwards.
\<close>

definition warnedCandidate :: string where
  "warnedCandidate = ''You logged 7 entries for your neck at 3/10, which is rare and severe.''"

definition flakyService :: "nat \<Rightarrow> string + string" where
  "flakyService n = (if n = 1 then Inl ''timeout'' else Inr warnedCandidate)"

text \<open>A candidate in which the descriptors only occur inside longer words.\<close>

definition embeddedCandidate :: string where
  "embeddedCandidate = ''You logged 7 entries for your neck at 3/10, rarely severely.''"

section \<open>The validator's rules as the specification words them\<close>

text \<open>
  A hallucination: the text contains, without regard to case, a region of the catalogue that
  is neither contained in the expected region nor contains it.
\<close>

definition mentionsForeignRegion :: "string \<Rightarrow> string \<Rightarrow> bool" where
  "mentionsForeignRegion summary expectedRegion =
     (\<exists>r \<in> set bodyRegions.
        sublist r (toLowerCase summary)
        \<and> \<not> sublist r (toLowerCase expectedRegion)
        \<and> \<not> sublist (toLowerCase expectedRegion) r)"

text \<open>
  A word-boundary match: the word occurs in the text, without regard to case, with no word
  character directly before it and none directly after it.
\<close>

definition wordBoundaryMatch :: "string \<Rightarrow> string \<Rightarrow> bool" where
  "wordBoundaryMatch w s =
     (\<exists>pre post. toLowerCase s = pre @ w @ post
        \<and> (pre = [] \<or> \<not> isWordChar (last pre))
        \<and> (post = [] \<or> \<not> isWordChar (hd post)))"

section \<open>Properties of double rounding\<close>

lemma roundHalfEven_of_int: "roundHalfEven (of_int n) = n"
  by (simp add: roundHalfEven_def)

lemma findExponent_ge: "e \<le> findExponent e a"
proof (induction e a rule: findExponent.induct)
  case (1 e a)
  show ?case
  proof (cases "a < 2 ^ 53 * 2 powi e \<or> 971 \<le> e")
    case True
    then show ?thesis by (subst findExponent.simps) simp
  next
    case False
    with 1 have "e + 1 \<le> findExponent (e + 1) a" by simp
    with False show ?thesis by (subst findExponent.simps) simp
  qed
qed

lemma findExponent_le:
  "e \<le> k \<Longrightarrow> a < 2 ^ 53 * 2 powi k \<Longrightarrow> findExponent e a \<le> k"
proof (induction e a rule: findExponent.induct)
  case (1 e a)
  show ?case
  proof (cases "a < 2 ^ 53 * 2 powi e \<or> 971 \<le> e")
    case True
    then show ?thesis using "1.prems" by (subst findExponent.simps) simp
  next
    case False
    with "1.prems" have "e \<noteq> k" by auto
    with "1.prems" have "e + 1 \<le> k" by simp
    with 1 False have "findExponent (e + 1) a \<le> k" by simp
    with False show ?thesis by (subst findExponent.simps) simp
  qed
qed

text \<open>The exponent found is the one whose grid holds the magnitude in its top binade.\<close>

lemma findExponent_eq:
  assumes "e \<le> k" and "k \<le> 971" and "a < 2 ^ 53 * 2 powi k"
    and "e < k \<longrightarrow> 2 ^ 53 * 2 powi (k - 1) \<le> a"
  shows "findExponent e a = k"
proof -
  have "findExponent e a \<le> k" using assms(1,3) by (rule findExponent_le)
  moreover have "k \<le> findExponent e a"
    using assms
  proof (induction e a rule: findExponent.induct)
    case (1 e a)
    show ?case
    proof (cases "e = k")
      case True
      then show ?thesis using findExponent_ge [of e a] by simp
    next
      case False
      with "1.prems" have lt: "e < k" by simp
      then have "(2::rat) powi e \<le> 2 powi (k - 1)"
        by (intro power_int_increasing) simp_all
      then have "2 ^ 53 * (2::rat) powi e \<le> 2 ^ 53 * 2 powi (k - 1)"
        by (intro mult_left_mono) simp_all
      also have "\<dots> \<le> a" using "1.prems" lt by simp
      finally have "\<not> a < 2 ^ 53 * 2 powi e" by simp
      moreover have "\<not> 971 \<le> e" using lt "1.prems" by simp
      ultimately have stop: "\<not> (a < 2 ^ 53 * 2 powi e \<or> 971 \<le> e)" by simp
      have "k \<le> findExponent (e + 1) a"
        using "1.IH" [OF stop] lt "1.prems" by simp
      with stop show ?thesis by (subst findExponent.simps) simp
    qed
  qed
  ultimately show ?thesis by simp
qed

text \<open>Rounding leaves a double as it is.\<close>

lemma roundDouble_exact:
  assumes "isDouble q"
  shows "roundDouble q = Finite q"
proof -
  from assms obtain m k where m: "\<bar>m\<bar> < 2 ^ 53" and k: "- 1074 \<le> k" "k \<le> 971"
    and q: "q = of_int m * 2 powi k"
    by (auto simp: isDouble_def)
  define a where "a = \<bar>q\<bar>"
  define e where "e = findExponent (- 1074) a"
  have a: "a = of_int \<bar>m\<bar> * 2 powi k"
    by (simp add: a_def q abs_mult)
  have "(of_int \<bar>m\<bar> :: rat) < 2 ^ 53"
    using m by (metis of_int_less_iff of_int_numeral of_int_power)
  then have below: "a < 2 ^ 53 * 2 powi k"
    by (simp add: a)
  also have "\<dots> \<le> 2 ^ 53 * 2 powi 971"
    using k by (intro mult_left_mono power_int_increasing) simp_all
  also have "\<dots> = 2 ^ 1024"
    by (simp add: power_int_def)
  finally have small: "\<not> 2 ^ 1024 \<le> a" by simp
  have e2: "e \<le> k" unfolding e_def using k(1) below by (rule findExponent_le)
  define N where "N = \<bar>m\<bar> * 2 ^ nat (k - e)"
  have "2 powi k = 2 powi (k - e) * (2::rat) powi e"
    by (simp flip: power_int_add)
  also have "(2::rat) powi (k - e) = of_int (2 ^ nat (k - e))"
    using e2 by (simp add: power_int_def)
  finally have "a / 2 powi e = of_int N"
    by (simp add: a N_def)
  moreover from this have "of_int N * 2 powi e = a"
    by (simp add: divide_eq_eq)
  ultimately have r: "of_int (roundHalfEven (a / 2 powi e)) * 2 powi e = a"
    by (simp only: roundHalfEven_of_int)
  have "roundDouble q = Finite (if q < 0 then - a else a)"
    unfolding roundDouble_def Let_def a_def [symmetric] e_def [symmetric] r
    by (simp only: small if_False)
  also have "(if q < 0 then - a else a) = q"
    by (simp add: a_def)
  finally show ?thesis .
qed

lemma mean_exact:
  "isDouble (a + b) \<Longrightarrow> isDouble ((a + b) / 2) \<Longrightarrow> jsHalf (jsAdd a b) = Finite ((a + b) / 2)"
  by (simp add: jsAdd_def jsHalf_def roundDouble_exact)

text \<open>Integers below \<open>2^53\<close> in magnitude and their halves are doubles.\<close>

lemma isDouble_of_int: "\<bar>n\<bar> < 2 ^ 53 \<Longrightarrow> isDouble (of_int n)"
  unfolding isDouble_def by (rule exI [of _ n], rule exI [of _ 0]) simp

lemma isDouble_half_of_int: "\<bar>n\<bar> < 2 ^ 53 \<Longrightarrow> isDouble (of_int n / 2)"
  unfolding isDouble_def by (rule exI [of _ n], rule exI [of _ "- 1"]) (simp add: power_int_minus)

section \<open>Properties of the statistics\<close>

lemma calculateMedian_sort:
  "xs \<noteq> [] \<Longrightarrow> calculateMedian (sort xs) = doubleMedian xs"
  by (simp add: doubleMedian_def calculateMedian_def Let_def even_iff_mod_2_eq_zero)

lemma doubleMedian_exact:
  "meanRepresentable xs \<Longrightarrow> doubleMedian xs = Finite (textbookMedian xs)"
  by (auto simp: meanRepresentable_def doubleMedian_def textbookMedian_def Let_def mean_exact)

lemma integer_scores_representable:
  assumes "\<forall>x \<in> set xs. \<exists>n. x = of_int n \<and> \<bar>n\<bar> < 2 ^ 52" and "xs \<noteq> []"
  shows "meanRepresentable xs"
proof (cases "odd (length xs)")
  case True
  then show ?thesis by (simp add: meanRepresentable_def Let_def)
next
  case False
  define s where "s = sort xs"
  define k where "k = length s div 2"
  have len: "0 < length s" "even (length s)" using assms(2) False by (simp_all add: s_def)
  then have "k < length s" by (simp add: k_def)
  then have "k - 1 < length s" by simp
  note inb = \<open>k - 1 < length s\<close> \<open>k < length s\<close>
  have "set s = set xs" by (simp add: s_def)
  with inb have "s ! (k - 1) \<in> set xs" "s ! k \<in> set xs"
    using nth_mem [of "k - 1" s] nth_mem [of k s] by simp_all
  with assms(1) obtain n1 n2 where n1: "s ! (k - 1) = of_int n1" "\<bar>n1\<bar> < 2 ^ 52"
    and n2: "s ! k = of_int n2" "\<bar>n2\<bar> < 2 ^ 52"
    by blast
  have "\<bar>n1 + n2\<bar> < 2 ^ 53" using n1(2) n2(2) by simp
  then have "isDouble (of_int (n1 + n2))" "isDouble (of_int (n1 + n2) / 2)"
    by (rule isDouble_of_int, rule isDouble_half_of_int)
  then have "isDouble (s ! (k - 1) + s ! k)" "isDouble ((s ! (k - 1) + s ! k) / 2)"
    unfolding n1(1) n2(1) by simp_all
  then show ?thesis
    unfolding meanRepresentable_def Let_def s_def [symmetric] k_def [symmetric] by blast
qed


text \<open>
  The textbook median is a median: at most half of the values lie strictly below it and at
  most half strictly above it.
\<close>

lemma filter_count_sort:
  "length (filter P (sort xs)) = length (filter P (xs :: rat list))"
  by (simp add: filter_sort)

lemma count_below_index:
  assumes "\<And>i. i < length s \<Longrightarrow> P (s ! i) \<Longrightarrow> i < k"
  shows "length (filter P s) \<le> k"
proof -
  have "{i. i < length s \<and> P (s ! i)} \<subseteq> {..<k}"
    using assms by auto
  then have "card {i. i < length s \<and> P (s ! i)} \<le> card {..<k}"
    by (intro card_mono) simp_all
  then show ?thesis
    by (simp add: length_filter_conv_card)
qed

lemma count_from_index:
  assumes "\<And>i. i < length s \<Longrightarrow> P (s ! i) \<Longrightarrow> k \<le> i"
  shows "length (filter P s) \<le> length s - k"
proof -
  have "{i. i < length s \<and> P (s ! i)} \<subseteq> {k..<length s}"
    using assms by auto
  then have "card {i. i < length s \<and> P (s ! i)} \<le> card {k..<length s}"
    by (intro card_mono) simp_all
  then show ?thesis
    by (simp add: length_filter_conv_card)
qed

lemma textbookMedian_halves:
  assumes "xs \<noteq> []"
  shows "2 * length (filter (\<lambda>x. x < textbookMedian xs) xs) \<le> length xs
         \<and> 2 * length (filter (\<lambda>x. textbookMedian xs < x) xs) \<le> length xs"
proof -
  define s where "s = sort xs"
  define n where "n = length s"
  define k where "k = n div 2"
  define m where "m = textbookMedian xs"
  have sorted: "sorted s" and n: "n = length xs" and pos: "0 < n"
    using assms by (simp_all add: s_def n_def)
  have mono: "\<And>i j. i \<le> j \<Longrightarrow> j < n \<Longrightarrow> s ! i \<le> s ! j"
    using sorted by (simp add: sorted_nth_mono n_def)
  have kn: "k < n" using pos by (simp add: k_def)
  have m_le: "m \<le> s ! k" and m_ge: "s ! (if odd n then k else k - 1) \<le> m"
  proof -
    show "m \<le> s ! k"
    proof (cases "odd n")
      case True
      then show ?thesis by (simp add: m_def textbookMedian_def s_def n_def k_def Let_def)
    next
      case False
      have "s ! (k - 1) \<le> s ! k" using mono [of "k - 1" k] kn by simp
      with False show ?thesis
        by (simp add: m_def textbookMedian_def s_def [symmetric] n_def [symmetric]
              k_def [symmetric] Let_def field_simps)
    qed
    show "s ! (if odd n then k else k - 1) \<le> m"
    proof (cases "odd n")
      case True
      then show ?thesis by (simp add: m_def textbookMedian_def s_def n_def k_def Let_def)
    next
      case False
      have "s ! (k - 1) \<le> s ! k" using mono [of "k - 1" k] kn by simp
      with False show ?thesis
        by (simp add: m_def textbookMedian_def s_def [symmetric] n_def [symmetric]
              k_def [symmetric] Let_def field_simps)
    qed
  qed
  have below: "length (filter (\<lambda>x. x < m) s) \<le> k"
  proof (rule count_below_index)
    fix i assume i: "i < length s" and lt: "s ! i < m"
    show "i < k"
    proof (rule ccontr)
      assume "\<not> i < k"
      then have "s ! k \<le> s ! i" using mono [of k i] i by (simp add: n_def)
      with lt m_le show False by simp
    qed
  qed
  have above: "length (filter (\<lambda>x. m < x) s) \<le> n - (if odd n then k + 1 else k)"
    unfolding n_def
  proof (rule count_from_index)
    fix i assume i: "i < length s" and gt: "m < s ! i"
    show "(if odd (length s) then k + 1 else k) \<le> i"
    proof (rule ccontr)
      assume "\<not> (if odd (length s) then k + 1 else k) \<le> i"
      then have "i \<le> (if odd n then k else k - 1)"
        by (auto simp: n_def split: if_splits)
      moreover have "(if odd n then k else k - 1) < n" using kn by auto
      ultimately have "s ! i \<le> s ! (if odd n then k else k - 1)"
        using mono by blast
      with gt m_ge show False by simp
    qed
  qed
  have "2 * k \<le> n" by (simp add: k_def)
  moreover have "2 * (n - (if odd n then k + 1 else k)) \<le> n"
    by (auto simp: k_def elim!: oddE evenE)
  ultimately have "2 * length (filter (\<lambda>x. x < m) s) \<le> n"
    and "2 * length (filter (\<lambda>x. m < x) s) \<le> n"
    using below above by linarith+
  then show ?thesis
    by (simp add: s_def filter_count_sort n m_def)
qed

text \<open>
  What \<open>sumRegion\<close> returns when the lookup of the period does not end in an inherited member.
\<close>

lemma getProperty_inherited_iff:
  "getProperty maps period = Inherited
     \<longleftrightarrow> maps period = None \<and> period \<in> set objectPrototypeMembers"
  by (auto simp: getProperty_def split: option.splits)

lemma getProperty_found:
  "getProperty maps period \<noteq> Inherited \<Longrightarrow>
   (case getProperty maps period of Own es \<Rightarrow> es | _ \<Rightarrow> [])
     = (case maps period of None \<Rightarrow> [] | Some es \<Rightarrow> es)"
  by (auto simp: getProperty_def split: option.splits)

lemma sumRegion_found:
  assumes "getProperty maps period \<noteq> Inherited"
  shows "sumRegion period maps reg =
     Inr (if matchingEntries period maps reg = []
          then \<lparr> summaryRegion = reg, summaryPeriod = period, frequency = 0,
                 medianScore = Finite 0, totalEntries = 0, dateRange = None \<rparr>
          else \<lparr> summaryRegion = reg, summaryPeriod = period,
                 frequency = int (length (matchingEntries period maps reg)),
                 medianScore = doubleMedian (map painScore (matchingEntries period maps reg)),
                 totalEntries = int (length (matchingEntries period maps reg)),
                 dateRange =
                   Some \<lparr> rangeStart = sort (map timestamp (matchingEntries period maps reg)) ! 0,
                          rangeEnd = sort (map timestamp (matchingEntries period maps reg))
                                       ! (length (matchingEntries period maps reg) - 1) \<rparr> \<rparr>)"
proof (cases "matchingEntries period maps reg = []")
  case True
  then show ?thesis
    using assms getProperty_found [OF assms]
    by (simp add: sumRegion_def matchingEntries_def Let_def)
next
  case False
  then have "map painScore (matchingEntries period maps reg) \<noteq> []"
    by simp
  moreover have "length (sort (map timestamp (matchingEntries period maps reg)))
                   = length (matchingEntries period maps reg)"
    by simp
  with False have "sort (map timestamp (matchingEntries period maps reg)) \<noteq> []"
    by (metis length_0_conv)
  ultimately show ?thesis
    using False assms getProperty_found [OF assms] calculateMedian_sort
    by (simp add: sumRegion_def matchingEntries_def Let_def)
qed

lemma sumRegion_no_match:
  assumes "getProperty maps period \<noteq> Inherited" and "matchingEntries period maps reg = []"
  shows "sumRegion period maps reg
           = Inr \<lparr> summaryRegion = reg, summaryPeriod = period, frequency = 0,
                   medianScore = Finite 0, totalEntries = 0, dateRange = None \<rparr>"
  using assms(2) by (simp add: sumRegion_found [OF assms(1)])

lemma sumRegion_zero_frequency:
  "sumRegion period maps reg = Inr summary \<Longrightarrow> frequency summary = 0 \<Longrightarrow>
   medianScore summary = Finite 0"
  by (auto simp: sumRegion_def Let_def split: if_splits)

text \<open>
  C3: for every entry mapping and region, and every period that is a key of the mapping or
  names no member the mapping object inherits, \<open>sumRegion\<close> returns as frequency the number of
  entries under the period whose region string is exactly the requested one, and, when there
  is such an entry, as median score the median of their severities sorted ascending as double
  arithmetic computes it: the middle element for an odd count, and for an even count the sum
  of the two middle elements rounded to a double, halved. This is the textbook median
  whenever that sum and its half are doubles, as they are for integer severities.
\<close>

theorem sumRegion_frequency_median:
  assumes "getProperty maps period \<noteq> Inherited"
  shows "\<exists>summary. sumRegion period maps reg = Inr summary
     \<and> frequency summary = int (length (matchingEntries period maps reg))
     \<and> totalEntries summary = int (length (matchingEntries period maps reg))
     \<and> (matchingEntries period maps reg \<noteq> [] \<longrightarrow>
          medianScore summary = doubleMedian (map painScore (matchingEntries period maps reg)))
     \<and> (matchingEntries period maps reg \<noteq> []
          \<and> meanRepresentable (map painScore (matchingEntries period maps reg)) \<longrightarrow>
          medianScore summary
            = Finite (textbookMedian (map painScore (matchingEntries period maps reg))))
     \<and> (matchingEntries period maps reg \<noteq> []
          \<and> (\<forall>entry \<in> set (matchingEntries period maps reg).
                \<exists>n. painScore entry = of_int n \<and> \<bar>n\<bar> < 2 ^ 52) \<longrightarrow>
          medianScore summary
            = Finite (textbookMedian (map painScore (matchingEntries period maps reg))))"
proof -
  let ?es = "matchingEntries period maps reg"
  have int: "meanRepresentable (map painScore ?es)"
    if "?es \<noteq> []" "\<forall>entry \<in> set ?es. \<exists>n. painScore entry = of_int n \<and> \<bar>n\<bar> < 2 ^ 52"
    using that by (intro integer_scores_representable) auto
  show ?thesis
    unfolding sumRegion_found [OF assms]
    using int by (cases "?es = []") (simp_all add: doubleMedian_exact)
qed


lemma integral_score:
  "(\<exists>n. (numeral k :: rat) = of_int n \<and> \<bar>n\<bar> < 2 ^ 52) = (numeral k < (2::int) ^ 52)"
proof
  assume "\<exists>n. (numeral k :: rat) = of_int n \<and> \<bar>n\<bar> < 2 ^ 52"
  then obtain n where "(numeral k :: rat) = of_int n" "\<bar>n\<bar> < 2 ^ 52" by blast
  then show "numeral k < (2::int) ^ 52"
    by (metis abs_numeral of_int_eq_iff of_int_numeral)
next
  assume "numeral k < (2::int) ^ 52"
  then have "(numeral k :: rat) = of_int (numeral k) \<and> \<bar>numeral k :: int\<bar> < 2 ^ 52" by simp
  then show "\<exists>n. (numeral k :: rat) = of_int n \<and> \<bar>n\<bar> < 2 ^ 52" ..
qed

theorem sumRegion_frequency_median_witness:
  "getProperty [''Last Week'' \<mapsto> lowerBackWeek] ''Last Week'' \<noteq> Inherited
   \<and> getProperty [''This Month'' \<mapsto> lowerBackMonth] ''This Month'' \<noteq> Inherited
   \<and> frequency (projr (sumRegion ''Last Week'' [''Last Week'' \<mapsto> lowerBackWeek] ''Lower Back'')) = 7
   \<and> medianScore (projr (sumRegion ''Last Week'' [''Last Week'' \<mapsto> lowerBackWeek] ''Lower Back''))
       = Finite 8
   \<and> frequency (projr (sumRegion ''This Month'' [''This Month'' \<mapsto> lowerBackMonth] ''Lower Back''))
       = 6
   \<and> medianScore (projr (sumRegion ''This Month'' [''This Month'' \<mapsto> lowerBackMonth] ''Lower Back''))
       = Finite (9 / 2)"
proof -
  have w: "getProperty [''Last Week'' \<mapsto> lowerBackWeek] ''Last Week'' \<noteq> Inherited"
    and m: "getProperty [''This Month'' \<mapsto> lowerBackMonth] ''This Month'' \<noteq> Inherited"
    by (simp_all add: getProperty_def)
  have week: "matchingEntries ''Last Week'' [''Last Week'' \<mapsto> lowerBackWeek] ''Lower Back''
      = [\<lparr>region = ''Lower Back'', painScore = 7, timestamp = 1\<rparr>,
         \<lparr>region = ''Lower Back'', painScore = 6, timestamp = 2\<rparr>,
         \<lparr>region = ''Lower Back'', painScore = 8, timestamp = 3\<rparr>,
         \<lparr>region = ''Lower Back'', painScore = 5, timestamp = 4\<rparr>,
         \<lparr>region = ''Lower Back'', painScore = 8, timestamp = 5\<rparr>,
         \<lparr>region = ''Lower Back'', painScore = 8, timestamp = 6\<rparr>,
         \<lparr>region = ''Lower Back'', painScore = 9, timestamp = 7\<rparr>]"
    by (simp add: matchingEntries_def lowerBackWeek_def)
  have month: "matchingEntries ''This Month'' [''This Month'' \<mapsto> lowerBackMonth] ''Lower Back''
      = [\<lparr>region = ''Lower Back'', painScore = 5, timestamp = 1\<rparr>,
         \<lparr>region = ''Lower Back'', painScore = 4, timestamp = 2\<rparr>,
         \<lparr>region = ''Lower Back'', painScore = 6, timestamp = 3\<rparr>,
         \<lparr>region = ''Lower Back'', painScore = 3, timestamp = 4\<rparr>,
         \<lparr>region = ''Lower Back'', painScore = 4, timestamp = 5\<rparr>,
         \<lparr>region = ''Lower Back'', painScore = 5, timestamp = 6\<rparr>]"
    by (simp add: matchingEntries_def lowerBackMonth_def)
  from sumRegion_frequency_median [OF w, of "''Lower Back''"]
  have "frequency (projr (sumRegion ''Last Week'' [''Last Week'' \<mapsto> lowerBackWeek] ''Lower Back'')) = 7
    \<and> medianScore (projr (sumRegion ''Last Week'' [''Last Week'' \<mapsto> lowerBackWeek] ''Lower Back''))
       = Finite 8"
    unfolding week by (auto simp: integral_score textbookMedian_def)
  moreover from sumRegion_frequency_median [OF m, of "''Lower Back''"]
  have "frequency (projr (sumRegion ''This Month'' [''This Month'' \<mapsto> lowerBackMonth] ''Lower Back''))
       = 6
    \<and> medianScore (projr (sumRegion ''This Month'' [''This Month'' \<mapsto> lowerBackMonth] ''Lower Back''))
       = Finite (9 / 2)"
    unfolding month by (auto simp: integral_score textbookMedian_def)
  ultimately show ?thesis using w m by simp
qed

text \<open>
  The scores 0.1 and 0.2 (the doubles nearest to them): their sum is a tie between two
  doubles and is rounded up, so the median returned is 0.15000000000000002 and differs from
  the arithmetic mean of the two scores.
\<close>

lemma tenths_sum_exponent: "findExponent (- 1074) \<bar>tenth + fifth\<bar> = - 54"
  by (rule findExponent_eq) (simp_all add: tenth_def fifth_def power_int_def power_one_over)

lemma tenths_tie_floor: "\<lfloor>(10808639105689191::rat) / 2\<rfloor> = 5404319552844595"
  by (simp add: floor_eq_iff)

lemma tenths_tie_rounded: "roundHalfEven (10808639105689191 / 2) = 5404319552844596"
  by (simp add: roundHalfEven_def tenths_tie_floor Let_def)

lemma tenths_sum_scaled: "\<bar>tenth + fifth\<bar> / 2 powi (- 54) = 10808639105689191 / 2"
  by (simp add: tenth_def fifth_def power_int_def power_one_over)

lemma tenths_sum_rounded: "jsAdd tenth fifth = Finite (5404319552844596 / 2 ^ 54)"
  unfolding jsAdd_def roundDouble_def Let_def tenths_sum_exponent tenths_sum_scaled
    tenths_tie_rounded
  by (simp add: tenth_def fifth_def power_int_def power_one_over)

lemma tenths_half_rounded:
  "jsHalf (Finite (5404319552844596 / 2 ^ 54)) = Finite (5404319552844596 / 2 ^ 55)"
proof -
  have "isDouble (of_int 5404319552844596 * 2 powi (- 55))"
    unfolding isDouble_def
    by (rule exI [of _ 5404319552844596], rule exI [of _ "- 55"]) simp
  then have "roundDouble (of_int 5404319552844596 * 2 powi (- 55))
               = Finite (of_int 5404319552844596 * 2 powi (- 55))"
    by (rule roundDouble_exact)
  then show ?thesis
    by (simp add: jsHalf_def power_int_def power_one_over)
qed

lemma tenths_are_doubles: "isDouble tenth \<and> isDouble fifth"
proof
  show "isDouble tenth"
    unfolding isDouble_def tenth_def
    by (rule exI [of _ 3602879701896397], rule exI [of _ "- 55"])
      (simp add: power_int_def power_one_over)
  show "isDouble fifth"
    unfolding isDouble_def fifth_def
    by (rule exI [of _ 3602879701896397], rule exI [of _ "- 54"])
      (simp add: power_int_def power_one_over)
qed

lemma tenths_matching:
  "matchingEntries ''Last Week'' [''Last Week'' \<mapsto> tenthsWeek] ''Neck'' = tenthsWeek"
  by (simp add: matchingEntries_def tenthsWeek_def)

lemma tenths_sorted: "sort [tenth, fifth] = [tenth, fifth]"
  by (simp add: tenth_def fifth_def)

text \<open>
  C3 with the arithmetic mean taken exactly fails on these two scores.
\<close>

theorem sumRegion_median_counterexample:
  "sumRegion ''Last Week'' [''Last Week'' \<mapsto> tenthsWeek] ''Neck''
     = Inr \<lparr> summaryRegion = ''Neck'', summaryPeriod = ''Last Week'', frequency = 2,
             medianScore = Finite (5404319552844596 / 2 ^ 55), totalEntries = 2,
             dateRange = Some \<lparr> rangeStart = 1, rangeEnd = 2 \<rparr> \<rparr>
   \<and> textbookMedian (map painScore
        (matchingEntries ''Last Week'' [''Last Week'' \<mapsto> tenthsWeek] ''Neck''))
     = 10808639105689191 / 2 ^ 56
   \<and> medianScore (projr (sumRegion ''Last Week'' [''Last Week'' \<mapsto> tenthsWeek] ''Neck''))
     \<noteq> Finite (textbookMedian (map painScore
          (matchingEntries ''Last Week'' [''Last Week'' \<mapsto> tenthsWeek] ''Neck'')))"
proof -
  have found: "getProperty [''Last Week'' \<mapsto> tenthsWeek] ''Last Week'' \<noteq> Inherited"
    by (simp add: getProperty_def)
  have "doubleMedian [tenth, fifth] = jsHalf (jsAdd tenth fifth)"
    unfolding doubleMedian_def Let_def tenths_sorted by simp
  also have "\<dots> = Finite (5404319552844596 / 2 ^ 55)"
    unfolding tenths_sum_rounded tenths_half_rounded ..
  finally have code: "sumRegion ''Last Week'' [''Last Week'' \<mapsto> tenthsWeek] ''Neck''
     = Inr \<lparr> summaryRegion = ''Neck'', summaryPeriod = ''Last Week'', frequency = 2,
             medianScore = Finite (5404319552844596 / 2 ^ 55), totalEntries = 2,
             dateRange = Some \<lparr> rangeStart = 1, rangeEnd = 2 \<rparr> \<rparr>"
    unfolding sumRegion_found [OF found] tenths_matching
    by (simp add: tenthsWeek_def)
  have mean: "textbookMedian [tenth, fifth] = 10808639105689191 / 2 ^ 56"
    by (simp add: textbookMedian_def tenths_sorted) (simp add: tenth_def fifth_def)
  from mean show ?thesis
    unfolding code tenths_matching by (simp add: tenthsWeek_def)
qed

text \<open>
  C7: when no entry of the period matches the region, in particular when the period is not a
  key of the mapping, \<open>sumRegion\<close> should return frequency 0, median score 0, total entries 0
  and no date range. The source guards the lookup with \<open>|| []\<close> only: for an absent period
  that names a member every object inherits (\<open>toString\<close>, \<open>constructor\<close>, \<open>__proto__\<close>) the
  lookup yields that member and the call of \<open>filter\<close> on it throws.
\<close>

theorem sumRegion_inherited_period_throws:
  "Map.empty ''toString'' = (None :: BodyMap list option)
   \<and> sumRegion ''toString'' Map.empty ''Neck'' = Inl TypeError
   \<and> sumRegion ''constructor'' [''Last Week'' \<mapsto> lowerBackWeek] ''Lower Back'' = Inl TypeError
   \<and> sumRegion ''__proto__'' [''Last Week'' \<mapsto> lowerBackWeek] ''Lower Back'' = Inl TypeError"
  by (simp add: sumRegion_def getProperty_def objectPrototypeMembers_def)

section \<open>Properties of the retry loop\<close>

lemma isValid_iff_no_errors:
  "isValid (validateSummary summary reg freq median period)
     = (errors (validateSummary summary reg freq median period) = [])"
  by (simp add: validateSummary_def Let_def)

lemma short_summary_rejected:
  "length summary < 20 \<Longrightarrow> errors (validateSummary summary reg freq median period) \<noteq> []"
  by (simp add: validateSummary_def Let_def)

lemma callGeminiAPI_short:
  "callGeminiAPI (Inr ''short'') = Inr ''short''"
  by (simp add: callGeminiAPI_def trim_def isSpaceChar_def)

text \<open>
  While every candidate is rejected and the fallback is enabled, the loop started at an
  attempt within the bound runs through all remaining attempts and ends in the fallback text.
\<close>

lemma attemptLoop_all_rejected:
  assumes rejected: "\<And>n s. callGeminiAPI (llm n) = Inr s \<Longrightarrow>
                      errors (validateSummary s reg freq median period) \<noteq> []"
  shows "attempt \<le> maxRetries \<Longrightarrow>
         outcome (attemptLoop period reg freq median maxRetries retryDelay True True llm
                    attempt calls waits)
           = Inr (generateFallbackSummary period reg freq median)
         \<and> apiCalls (attemptLoop period reg freq median maxRetries retryDelay True True llm
                      attempt calls waits)
           = calls + nat (maxRetries + 1 - attempt)"
proof (induction "nat (maxRetries - attempt)" arbitrary: attempt calls waits)
  case 0
  then have last: "attempt = maxRetries" by simp
  show ?case
  proof (cases "callGeminiAPI (llm (Suc calls))")
    case (Inl message)
    then show ?thesis using last
      by (subst (1 2) attemptLoop.simps) simp
  next
    case (Inr summary)
    from rejected [OF Inr] show ?thesis using last Inr
      by (subst (1 2) attemptLoop.simps) (simp add: isValid_iff_no_errors Let_def)
  qed
next
  case (Suc k)
  then have more: "attempt < maxRetries" and step: "k = nat (maxRetries - (attempt + 1))"
    and le: "attempt + 1 \<le> maxRetries"
    by simp_all
  note IH = Suc.hyps(1) [OF step le]
  show ?case
  proof (cases "callGeminiAPI (llm (Suc calls))")
    case (Inl message)
    then show ?thesis using more IH [of "Suc calls" "waits @ [retryDelay * attempt]"]
      by (subst (1 2) attemptLoop.simps) (simp add: nat_diff_distrib)
  next
    case (Inr summary)
    from rejected [OF Inr] show ?thesis
      using more Inr IH [of "Suc calls" "waits @ [retryDelay]"]
      by (subst (1 2) attemptLoop.simps) (simp add: isValid_iff_no_errors Let_def)
  qed
qed

text \<open>
  C1: in every run of \<open>summariseWithAI\<close> with three attempts allowed, the fallback enabled and
  validation on, in which every candidate the capability returns is rejected with at least
  one error, the capability is invoked exactly three times and the string returned is the
  fallback text \<open>generateFallbackSummary period region frequency medianScore\<close>.
\<close>

theorem summariseWithAI_three_attempts_then_fallback:
  assumes "orDefault (optMaxRetries options) (thisMaxRetries this) = 3"
    and "optFallbackEnabled options \<noteq> Some False"
    and "optEnableValidation options \<noteq> Some False"
    and "\<forall>n s. callGeminiAPI (llm n) = Inr s \<longrightarrow>
                 errors (validateSummary s reg freq median period) \<noteq> []"
  shows "outcome (summariseWithAI this period reg freq median options llm)
           = Inr (generateFallbackSummary period reg freq median)
         \<and> apiCalls (summariseWithAI this period reg freq median options llm) = 3"
proof -
  have rejected: "\<And>n s. callGeminiAPI (llm n) = Inr s \<Longrightarrow>
                    errors (validateSummary s reg freq median period) \<noteq> []"
    using assms(4) by blast
  have "(1::int) \<le> 3" by simp
  from attemptLoop_all_rejected
    [where calls = 0 and waits = "[]"
       and retryDelay = "orDefault (optRetryDelay options) (thisRetryDelay this)",
     OF rejected this]
  show ?thesis using assms(1-3)
    by (simp add: summariseWithAI_def Let_def)
qed

theorem summariseWithAI_three_attempts_then_fallback_witness:
  "orDefault (optMaxRetries defaultOptions) (thisMaxRetries defaultInstance) = 3
   \<and> optFallbackEnabled defaultOptions \<noteq> Some False
   \<and> optEnableValidation defaultOptions \<noteq> Some False
   \<and> callGeminiAPI (Inr ''short'') = Inr ''short''
   \<and> errors (validateSummary ''short'' ''Neck'' 7 3 ''Last Week'') \<noteq> []
   \<and> outcome (summariseWithAI defaultInstance ''Last Week'' ''Neck'' 7 3 defaultOptions
                 (\<lambda>n. Inr ''short''))
       = Inr (generateFallbackSummary ''Last Week'' ''Neck'' 7 3)
   \<and> apiCalls (summariseWithAI defaultInstance ''Last Week'' ''Neck'' 7 3 defaultOptions
                  (\<lambda>n. Inr ''short'')) = 3"
proof -
  have a: "orDefault (optMaxRetries defaultOptions) (thisMaxRetries defaultInstance) = 3"
    by (simp add: defaultOptions_def defaultInstance_def constructor_def orDefault_def)
  have b: "optFallbackEnabled defaultOptions \<noteq> Some False"
    and c: "optEnableValidation defaultOptions \<noteq> Some False"
    by (simp_all add: defaultOptions_def)
  have d: "\<forall>n s. callGeminiAPI ((\<lambda>n. Inr ''short'') n) = Inr s \<longrightarrow>
                 errors (validateSummary s ''Neck'' 7 3 ''Last Week'') \<noteq> []"
    by (auto simp: callGeminiAPI_short intro!: short_summary_rejected)
  have e: "errors (validateSummary ''short'' ''Neck'' 7 3 ''Last Week'') \<noteq> []"
    by (rule short_summary_rejected) simp
  from summariseWithAI_three_attempts_then_fallback [OF a b c d] a b c e callGeminiAPI_short
  show ?thesis by blast
qed

text \<open>
  On the last attempt, with the fallback disabled, a rejected candidate falls through both
  branches of the validation block and is returned.
\<close>

lemma attemptLoop_rejected_last_no_fallback:
  "callGeminiAPI (llm (Suc calls)) = Inr summary \<Longrightarrow>
   attemptLoop period reg freq median maxRetries retryDelay False ev llm maxRetries calls waits
     = \<lparr> outcome = Inr summary, apiCalls = Suc calls, delays = waits \<rparr>"
  by (subst attemptLoop.simps) (simp add: Let_def)

text \<open>
  C2: with the fallback disabled, a final attempt whose candidate is rejected should end in
  a terminal failure and never return the candidate. The source has no branch for this case:
  with one attempt allowed and the fallback disabled, the candidate \<open>short\<close>, rejected for its
  length, is what the run returns.
\<close>

theorem summariseWithAI_returns_rejected_candidate:
  "errors (validateSummary ''short'' ''Neck'' 7 3 ''Last Week'') \<noteq> []
   \<and> outcome (summariseWithAI defaultInstance ''Last Week'' ''Neck'' 7 3
                (defaultOptions \<lparr> optMaxRetries := Some 1, optFallbackEnabled := Some False \<rparr>)
                (\<lambda>n. Inr ''short''))
       = Inr ''short''"
proof -
  have e: "errors (validateSummary ''short'' ''Neck'' 7 3 ''Last Week'') \<noteq> []"
    by (rule short_summary_rejected) simp
  have "attemptLoop ''Last Week'' ''Neck'' 7 3 1 1000 False True (\<lambda>n. Inr ''short'') 1 0 []
          = \<lparr> outcome = Inr ''short'', apiCalls = Suc 0, delays = [] \<rparr>"
    by (rule attemptLoop_rejected_last_no_fallback) (rule callGeminiAPI_short)
  with e show ?thesis
    by (simp add: summariseWithAI_def defaultOptions_def defaultInstance_def constructor_def
          orDefault_def)
qed

text \<open>
  When the calls before the \<open>k\<close>-th all fail and the \<open>k\<close>-th returns a candidate without
  errors, within the bound on attempts, the loop returns that candidate.
\<close>

lemma attemptLoop_first_candidate_accepted:
  assumes accepted: "errors (validateSummary candidate reg freq median period) = []"
  shows "\<forall>j. calls < j \<and> j \<le> calls + n \<longrightarrow> (\<exists>message. callGeminiAPI (llm j) = Inl message) \<Longrightarrow>
         callGeminiAPI (llm (Suc (calls + n))) = Inr candidate \<Longrightarrow>
         attempt + int n \<le> maxRetries \<Longrightarrow>
         outcome (attemptLoop period reg freq median maxRetries retryDelay fb ev llm
                    attempt calls waits) = Inr candidate
         \<and> apiCalls (attemptLoop period reg freq median maxRetries retryDelay fb ev llm
                      attempt calls waits) = Suc (calls + n)"
proof (induction n arbitrary: attempt calls waits)
  case 0
  then show ?case using accepted
    by (subst (1 2) attemptLoop.simps) (simp add: isValid_iff_no_errors Let_def)
next
  case (Suc n)
  from Suc.prems(1) obtain message where thrown: "callGeminiAPI (llm (Suc calls)) = Inl message"
    by (metis Suc_le_mono le_add1 lessI add_Suc_right)
  have rest: "\<forall>j. Suc calls < j \<and> j \<le> Suc calls + n \<longrightarrow> (\<exists>message. callGeminiAPI (llm j) = Inl message)"
    using Suc.prems(1) by auto
  have cand: "callGeminiAPI (llm (Suc (Suc calls + n))) = Inr candidate"
    using Suc.prems(2) by simp
  have bound: "(attempt + 1) + int n \<le> maxRetries" and more: "attempt \<noteq> maxRetries"
    and inb: "attempt \<le> maxRetries"
    using Suc.prems(3) by simp_all
  from Suc.IH [OF rest cand bound, of "waits @ [retryDelay * attempt]"] thrown more inb
  show ?case
    by (subst (1 2) attemptLoop.simps) simp
qed

text \<open>
  C6: in every run of \<open>summariseWithAI\<close> in which the first candidate the capability returns
  (on some attempt \<open>k\<close> within the bound, every earlier call having failed) has a verdict with
  no errors, that candidate is returned verbatim, whatever warnings the verdict carries and
  whether or not validation is enabled.
\<close>

theorem summariseWithAI_accepts_first_valid_candidate:
  assumes "1 \<le> k"
    and "int k \<le> orDefault (optMaxRetries options) (thisMaxRetries this)"
    and "\<forall>j. 1 \<le> j \<and> j < k \<longrightarrow> (\<exists>message. callGeminiAPI (llm j) = Inl message)"
    and "callGeminiAPI (llm k) = Inr candidate"
    and "errors (validateSummary candidate reg freq median period) = []"
  shows "outcome (summariseWithAI this period reg freq median options llm) = Inr candidate
         \<and> apiCalls (summariseWithAI this period reg freq median options llm) = k"
proof -
  obtain n where k: "k = Suc n" using assms(1) by (cases k) simp_all
  have thrown: "\<forall>j. 0 < j \<and> j \<le> 0 + n \<longrightarrow> (\<exists>message. callGeminiAPI (llm j) = Inl message)"
    using assms(3) k by auto
  have cand: "callGeminiAPI (llm (Suc (0 + n))) = Inr candidate"
    using assms(4) k by simp
  have bound: "1 + int n \<le> orDefault (optMaxRetries options) (thisMaxRetries this)"
    using assms(2) k by simp
  from attemptLoop_first_candidate_accepted [OF assms(5) thrown cand bound]
  show ?thesis using k
    by (simp add: summariseWithAI_def Let_def)
qed

lemma warnedCandidate_errors:
  "errors (validateSummary warnedCandidate ''Neck'' 7 3 ''Last Week'') = []"
  unfolding warnedCandidate_def by code_simp

lemma warnedCandidate_warnings:
  "length (warnings (validateSummary warnedCandidate ''Neck'' 7 3 ''Last Week'')) = 2"
  unfolding warnedCandidate_def by code_simp

lemma warnedCandidate_call:
  "callGeminiAPI (Inr warnedCandidate) = Inr warnedCandidate"
  unfolding warnedCandidate_def by code_simp


theorem summariseWithAI_accepts_first_valid_candidate_witness:
  "errors (validateSummary warnedCandidate ''Neck'' 7 3 ''Last Week'') = []
   \<and> length (warnings (validateSummary warnedCandidate ''Neck'' 7 3 ''Last Week'')) = 2
   \<and> callGeminiAPI (flakyService 1) = Inl ''timeout''
   \<and> callGeminiAPI (flakyService 2) = Inr warnedCandidate
   \<and> outcome (summariseWithAI defaultInstance ''Last Week'' ''Neck'' 7 3 defaultOptions
                 flakyService) = Inr warnedCandidate
   \<and> apiCalls (summariseWithAI defaultInstance ''Last Week'' ''Neck'' 7 3 defaultOptions
                  flakyService) = 2"
proof -
  have a: "(1::nat) \<le> 2" by simp
  have b: "int 2 \<le> orDefault (optMaxRetries defaultOptions) (thisMaxRetries defaultInstance)"
    by (simp add: defaultOptions_def defaultInstance_def constructor_def orDefault_def)
  have t: "callGeminiAPI (flakyService 1) = Inl ''timeout''"
    by (simp add: flakyService_def callGeminiAPI_def)
  have c: "\<forall>j. 1 \<le> j \<and> j < 2 \<longrightarrow> (\<exists>message. callGeminiAPI (flakyService j) = Inl message)"
  proof (intro allI impI)
    fix j :: nat
    assume "1 \<le> j \<and> j < 2"
    then have "j = 1" by simp
    with t show "\<exists>message. callGeminiAPI (flakyService j) = Inl message" by simp
  qed
  have d: "callGeminiAPI (flakyService 2) = Inr warnedCandidate"
    by (simp add: flakyService_def warnedCandidate_call)
  note e = warnedCandidate_errors
  from summariseWithAI_accepts_first_valid_candidate [OF a b c d e] t d e warnedCandidate_warnings
  show ?thesis by simp
qed








section \<open>Properties of the fallback generator\<close>






section \<open>Properties of the validator\<close>

subsection \<open>Strings\<close>

lemma strIncludes_iff_sublist: "strIncludes s t \<longleftrightarrow> sublist t s"
  by (induction s) (auto simp: sublist_Cons_right)

lemma toLowerChar_idem: "toLowerChar (toLowerChar c) = toLowerChar c"
  by (auto simp: toLowerChar_def)

lemma toLowerCase_idem: "toLowerCase (toLowerCase s) = toLowerCase s"
  by (simp add: toLowerCase_def toLowerChar_idem)

lemma toLowerCase_append: "toLowerCase (a @ b) = toLowerCase a @ toLowerCase b"
  by (simp add: toLowerCase_def)

lemma sublist_append_prefix: "sublist (a @ b) s \<Longrightarrow> sublist a s"
  by (metis append.assoc sublist_def)

lemma digitChar_lower: "d < 10 \<Longrightarrow> toLowerChar (digitChar d) = digitChar d"
proof -
  assume "d < 10"
  then have "d \<in> {0, 1, 2, 3, 4, 5, 6, 7, 8, 9}" by auto
  then show ?thesis
    by (auto simp: digitChar_def toLowerChar_def)
qed

lemma digitsOf_lower: "toLowerCase (digitsOf n) = digitsOf n"
proof (induction n rule: digitsOf.induct)
  case (1 n)
  show ?case
  proof (cases "n < 10")
    case True
    then show ?thesis
      by (subst (1 2) digitsOf.simps) (simp add: toLowerCase_def digitChar_lower)
  next
    case False
    with 1 have "toLowerCase (digitsOf (n div 10)) = digitsOf (n div 10)" by simp
    moreover have "toLowerChar (digitChar (n mod 10)) = digitChar (n mod 10)"
      by (rule digitChar_lower) simp
    ultimately show ?thesis using False
      by (subst (1 2) digitsOf.simps) (simp add: toLowerCase_def)
  qed
qed

lemma digitsOf_nonempty: "digitsOf n \<noteq> []"
  by (subst digitsOf.simps) simp

lemma intToString_lower: "toLowerCase (intToString i) = intToString i"
  using digitsOf_lower [of "nat i"] digitsOf_lower [of "nat (- i)"]
  by (simp add: intToString_def toLowerCase_def toLowerChar_def)

lemma intToString_nonempty: "intToString i \<noteq> []"
  by (simp add: intToString_def digitsOf_nonempty)

subsection \<open>The region check\<close>

lemma bodyRegions_lower: "r \<in> set bodyRegions \<Longrightarrow> toLowerCase r = r"
  by (auto simp: bodyRegions_def toLowerCase_def toLowerChar_def)

lemma hallucinatedRegions_nonempty_iff:
  "hallucinatedRegions (toLowerCase summary) (toLowerCase expectedRegion) \<noteq> []
     \<longleftrightarrow> mentionsForeignRegion summary expectedRegion"
  unfolding hallucinatedRegions_def mentionsForeignRegion_def filter_empty_conv
  by (auto simp: bodyRegions_lower strIncludes_iff_sublist Let_def)

lemma validateRegionMention_valid:
  "valid (validateRegionMention summary expectedRegion)
     = (hallucinatedRegions (toLowerCase summary) (toLowerCase expectedRegion) = [])"
  by (simp add: validateRegionMention_def Let_def)

lemma validateRegionMention_error:
  "error (validateRegionMention summary expectedRegion) = None
     \<longleftrightarrow> hallucinatedRegions (toLowerCase summary) (toLowerCase expectedRegion) = []"
  by (simp add: validateRegionMention_def Let_def)

text \<open>
  C5: the region check of \<open>validateSummary\<close> produces an error exactly when the text
  contains, without regard to case, a region of the catalogue that is neither a substring of
  the (lowercased) expected region nor has it as a substring; in particular a text in which
  the expected region is absent and no such foreign region occurs passes the check.
\<close>

theorem validateRegionMention_rejects_iff_foreign_region:
  "valid (validateRegionMention summary expectedRegion)
     = (\<not> mentionsForeignRegion summary expectedRegion)
   \<and> (\<exists>e. error (validateRegionMention summary expectedRegion) = Some e
           \<and> e \<in> set (errors (validateSummary summary expectedRegion freq median period)))
     = mentionsForeignRegion summary expectedRegion
   \<and> (\<not> sublist (toLowerCase expectedRegion) (toLowerCase summary)
        \<and> \<not> mentionsForeignRegion summary expectedRegion
      \<longrightarrow> valid (validateRegionMention summary expectedRegion))"
proof -
  have v: "valid (validateRegionMention summary expectedRegion)
             = (\<not> mentionsForeignRegion summary expectedRegion)"
    using hallucinatedRegions_nonempty_iff [of summary expectedRegion]
    by (auto simp: validateRegionMention_valid)
  have e: "(\<exists>e. error (validateRegionMention summary expectedRegion) = Some e
           \<and> e \<in> set (errors (validateSummary summary expectedRegion freq median period)))
     = mentionsForeignRegion summary expectedRegion"
  proof (cases "mentionsForeignRegion summary expectedRegion")
    case True
    with v have nv: "\<not> valid (validateRegionMention summary expectedRegion)" by simp
    then obtain msg where m: "error (validateRegionMention summary expectedRegion) = Some msg"
      using validateRegionMention_error [of summary expectedRegion]
        validateRegionMention_valid [of summary expectedRegion] by auto
    with nv have "msg \<in> set (errors (validateSummary summary expectedRegion freq median period))"
      by (simp add: validateSummary_def Let_def)
    with m True show ?thesis by simp
  next
    case False
    with v have "error (validateRegionMention summary expectedRegion) = None"
      using validateRegionMention_error [of summary expectedRegion]
        validateRegionMention_valid [of summary expectedRegion] by simp
    with False show ?thesis by simp
  qed
  from v e show ?thesis by simp
qed


lemma foreign_example:
  "mentionsForeignRegion ''Your neck and back pain was logged 4 times.'' ''Neck''"
  by code_simp

lemma foreign_example2:
  "\<not> mentionsForeignRegion ''It was logged 4 times at a level of 5/10.'' ''Neck''"
  by code_simp

lemma foreign_example3:
  "\<not> mentionsForeignRegion ''Your back was logged 4 times at a level of 5/10.'' ''Lower Back''"
  by code_simp

lemma foreign_example_message: "error (validateRegionMention ''Your neck and back pain was logged 4 times.'' ''Neck'')
      = Some (''Hallucinated region(s) detected: '' @ [CHR 0x22] @ ''back'' @ [CHR 0x22]
              @ '' (expected only '' @ [CHR 0x22] @ ''Neck'' @ [CHR 0x22] @ '')'')"
  by code_simp

lemma pronoun_example: "\<not> sublist (toLowerCase ''Neck'') (toLowerCase ''It was logged 4 times at a level of 5/10.'')"
  by code_simp

theorem validateRegionMention_rejects_iff_foreign_region_witness:
  \<open>\<not> valid (validateRegionMention ''Your neck and back pain was logged 4 times.'' ''Neck'')
   \<and> error (validateRegionMention ''Your neck and back pain was logged 4 times.'' ''Neck'')
       = Some ''Hallucinated region(s) detected: "back" (expected only "Neck")''
   \<and> \<not> sublist (toLowerCase ''Neck'') (toLowerCase ''It was logged 4 times at a level of 5/10.'')
   \<and> valid (validateRegionMention ''It was logged 4 times at a level of 5/10.'' ''Neck'')
   \<and> valid (validateRegionMention ''Your back was logged 4 times at a level of 5/10.''
               ''Lower Back'')\<close>
  using validateRegionMention_rejects_iff_foreign_region
      [of "''Your neck and back pain was logged 4 times.''" "''Neck''" 4 5 "''Last Week''"]
    validateRegionMention_rejects_iff_foreign_region
      [of "''It was logged 4 times at a level of 5/10.''" "''Neck''" 4 5 "''Last Week''"]
    validateRegionMention_rejects_iff_foreign_region
      [of "''Your back was logged 4 times at a level of 5/10.''" "''Lower Back''" 4 5
          "''Last Week''"]
    foreign_example foreign_example2 foreign_example3 foreign_example_message
    pronoun_example
  by simp

subsection \<open>The numeric check\<close>

lemma numberWords_small:
  "0 \<le> i \<Longrightarrow> i \<le> 10 \<Longrightarrow>
   numberWordAt i = Some (numberWords ! nat i)
   \<and> numberWords ! nat i \<noteq> [] \<and> toLowerCase (numberWords ! nat i) = numberWords ! nat i"
proof -
  assume "0 \<le> i" "i \<le> 10"
  then have "i = 0 \<or> i = 1 \<or> i = 2 \<or> i = 3 \<or> i = 4 \<or> i = 5 \<or> i = 6 \<or> i = 7 \<or> i = 8
             \<or> i = 9 \<or> i = 10"
    by presburger
  then show ?thesis
    by (auto simp: numberWordAt_def numberWords_def toLowerCase_def toLowerChar_def)
qed

text \<open>
  C10: number words cover zero to ten only. For a frequency of 11 or more the number word is
  undefined and filtered out of the variations, and the frequency is found exactly when its
  digits occur in the text (every collocation begins with them); for a frequency from 0 to
  10 the number word is among the variations and its occurrence alone suffices.
\<close>

theorem validateNumericalData_number_words:
  "(11 \<le> freq \<longrightarrow>
      numberWordAt freq = None
      \<and> frequencyVariations freq
          = [intToString freq, intToString freq @ '' time'', intToString freq @ '' entr'',
             intToString freq @ '' occurrence'', intToString freq @ '' instance'']
      \<and> frequencyFound (validateNumericalData summary freq median)
          = sublist (intToString freq) (toLowerCase summary))
   \<and> (0 \<le> freq \<and> freq \<le> 10 \<longrightarrow>
        numberWordAt freq = Some (numberWords ! nat freq)
        \<and> numberWords ! nat freq \<in> set (frequencyVariations freq)
        \<and> (sublist (numberWords ! nat freq) (toLowerCase summary) \<longrightarrow>
             frequencyFound (validateNumericalData summary freq median)))"
proof (intro conjI impI)
  assume big: "11 \<le> freq"
  then show none: "numberWordAt freq = None"
    by (simp add: numberWordAt_def numberWords_def)
  then show vars: "frequencyVariations freq
          = [intToString freq, intToString freq @ '' time'', intToString freq @ '' entr'',
             intToString freq @ '' occurrence'', intToString freq @ '' instance'']"
    by (simp add: frequencyVariations_def filterBoolean_def intToString_nonempty)
  show "frequencyFound (validateNumericalData summary freq median)
          = sublist (intToString freq) (toLowerCase summary)"
    by (auto simp: validateNumericalData_def vars strIncludes_iff_sublist toLowerCase_append
          intToString_lower Let_def dest: sublist_append_prefix)
next
  assume small: "0 \<le> freq \<and> freq \<le> 10"
  then have w: "numberWordAt freq = Some (numberWords ! nat freq)"
    and ne: "numberWords ! nat freq \<noteq> []"
    and lw: "toLowerCase (numberWords ! nat freq) = numberWords ! nat freq"
    using numberWords_small [of freq] by simp_all
  show "numberWordAt freq = Some (numberWords ! nat freq)" by (rule w)
  show mem: "numberWords ! nat freq \<in> set (frequencyVariations freq)"
    by (simp add: frequencyVariations_def filterBoolean_def w ne intToString_nonempty)
  assume "sublist (numberWords ! nat freq) (toLowerCase summary)"
  with lw have "sublist (toLowerCase (numberWords ! nat freq)) (toLowerCase summary)"
    by simp
  with mem show "frequencyFound (validateNumericalData summary freq median)"
    unfolding validateNumericalData_def Let_def list_ex_iff strIncludes_iff_sublist
    by (simp del: set_simps) blast
qed


lemma twelve_word_example: "\<not> sublist (intToString 12) (toLowerCase ''Pain was logged twelve times at 5/10.'')"
  by code_simp

lemma twelve_digits_example: "sublist (intToString 12) (toLowerCase ''Pain was logged 12 times at 5/10.'')"
  by code_simp

lemma four_word_example: "sublist (numberWords ! nat 4) (toLowerCase ''Pain was logged four times.'')"
  by code_simp

theorem validateNumericalData_number_words_witness:
  "numberWordAt 12 = None
   \<and> \<not> frequencyFound (validateNumericalData ''Pain was logged twelve times at 5/10.'' 12 5)
   \<and> frequencyFound (validateNumericalData ''Pain was logged 12 times at 5/10.'' 12 5)
   \<and> numberWordAt 4 = Some ''four''
   \<and> frequencyFound (validateNumericalData ''Pain was logged four times.'' 4 5)"
  using validateNumericalData_number_words [of 12 "''Pain was logged twelve times at 5/10.''" 5]
    validateNumericalData_number_words [of 12 "''Pain was logged 12 times at 5/10.''" 5]
    validateNumericalData_number_words [of 4 "''Pain was logged four times.''" 5]
    twelve_word_example twelve_digits_example four_word_example
  by (simp add: numberWords_def)

subsection \<open>The consistency check\<close>

lemma wordAt_iff:
  "wordAt w s \<longleftrightarrow> (\<exists>post. s = w @ post \<and> (post = [] \<or> \<not> isWordChar (hd post)))"
proof
  assume "wordAt w s"
  then obtain post where s: "s = w @ post"
    and b: "case drop (length w) s of [] \<Rightarrow> True | c # _ \<Rightarrow> \<not> isWordChar c"
    by (auto simp: wordAt_def prefix_def)
  from b s have "post = [] \<or> \<not> isWordChar (hd post)"
    by (cases post) simp_all
  with s show "\<exists>post. s = w @ post \<and> (post = [] \<or> \<not> isWordChar (hd post))" by blast
next
  assume "\<exists>post. s = w @ post \<and> (post = [] \<or> \<not> isWordChar (hd post))"
  then obtain post where s: "s = w @ post" and b: "post = [] \<or> \<not> isWordChar (hd post)"
    by blast
  then show "wordAt w s"
    by (cases post) (simp_all add: wordAt_def)
qed

lemma scanWord_iff:
  assumes "w \<noteq> []"
  shows "scanWord p w s \<longleftrightarrow>
           (\<exists>pre post. s = pre @ w @ post
              \<and> (if pre = [] then \<not> p else \<not> isWordChar (last pre))
              \<and> (post = [] \<or> \<not> isWordChar (hd post)))"
proof (induction s arbitrary: p)
  case Nil
  then show ?case using assms by simp
next
  case (Cons c cs)
  show ?case
  proof
    assume "scanWord p w (c # cs)"
    then consider (here) "\<not> p" "wordAt w (c # cs)" | (later) "scanWord (isWordChar c) w cs"
      by auto
    then show "\<exists>pre post. c # cs = pre @ w @ post
              \<and> (if pre = [] then \<not> p else \<not> isWordChar (last pre))
              \<and> (post = [] \<or> \<not> isWordChar (hd post))"
    proof cases
      case here
      from here(2) obtain post where "c # cs = w @ post" "post = [] \<or> \<not> isWordChar (hd post)"
        unfolding wordAt_iff by blast
      with here(1) have "c # cs = [] @ w @ post \<and> (if [] = ([]::string) then \<not> p else \<not> isWordChar (last []))
              \<and> (post = [] \<or> \<not> isWordChar (hd post))" by simp
      then show ?thesis by blast
    next
      case later
      then obtain pre post where cs: "cs = pre @ w @ post"
        and l: "if pre = [] then \<not> isWordChar c else \<not> isWordChar (last pre)"
        and r: "post = [] \<or> \<not> isWordChar (hd post)"
        unfolding Cons.IH by blast
      from l have "\<not> isWordChar (last (c # pre))" by (simp split: if_splits)
      with cs r have "c # cs = (c # pre) @ w @ post
          \<and> (if c # pre = [] then \<not> p else \<not> isWordChar (last (c # pre)))
          \<and> (post = [] \<or> \<not> isWordChar (hd post))" by simp
      then show ?thesis by blast
    qed
  next
    assume "\<exists>pre post. c # cs = pre @ w @ post
              \<and> (if pre = [] then \<not> p else \<not> isWordChar (last pre))
              \<and> (post = [] \<or> \<not> isWordChar (hd post))"
    then obtain pre post where s: "c # cs = pre @ w @ post"
      and l: "if pre = [] then \<not> p else \<not> isWordChar (last pre)"
      and r: "post = [] \<or> \<not> isWordChar (hd post)"
      by blast
    show "scanWord p w (c # cs)"
    proof (cases pre)
      case Nil
      with s l r have "\<not> p" "wordAt w (c # cs)"
        unfolding wordAt_iff by auto
      then show ?thesis by simp
    next
      case (Cons d pre')
      with s have c: "d = c" and cs: "cs = pre' @ w @ post" by simp_all
      from l Cons c have "if pre' = [] then \<not> isWordChar c else \<not> isWordChar (last pre')"
        by (simp split: if_splits)
      with cs r have "scanWord (isWordChar c) w cs"
        unfolding Cons.IH by blast
      then show ?thesis by simp
    qed
  qed
qed

lemma regexWordTest_iff:
  assumes "w \<noteq> []" and "toLowerCase w = w"
  shows "regexWordTest w (toLowerCase s) = wordBoundaryMatch w s"
proof -
  have edge: "\<And>pre. (if pre = [] then \<not> False else \<not> isWordChar (last pre))
                  = (pre = [] \<or> \<not> isWordChar (last pre))"
    by simp
  have "regexWordTest w (toLowerCase s) = scanWord False w (toLowerCase s)"
    by (simp add: regexWordTest_def toLowerCase_idem assms(2))
  also have "\<dots> = wordBoundaryMatch w s"
    unfolding scanWord_iff [OF assms(1)] wordBoundaryMatch_def edge ..
  finally show ?thesis .
qed

lemma descriptors_plain:
  "d \<in> set frequencyLow \<union> set frequencyHigh \<union> set severityLow \<union> set severityHigh \<Longrightarrow>
   d \<noteq> [] \<and> toLowerCase d = d"
  by (auto simp: frequencyLow_def frequencyHigh_def severityLow_def severityHigh_def
        toLowerCase_def toLowerChar_def)

lemma anyDescriptor_iff:
  assumes "set descs \<subseteq> set frequencyLow \<union> set frequencyHigh \<union> set severityLow \<union> set severityHigh"
  shows "anyDescriptor descs (toLowerCase s) = (\<exists>d \<in> set descs. wordBoundaryMatch d s)"
proof -
  have "\<And>d. d \<in> set descs \<Longrightarrow> regexWordTest d (toLowerCase s) = wordBoundaryMatch d s"
    using assms descriptors_plain regexWordTest_iff by blast
  then show ?thesis
    by (simp add: anyDescriptor_def list_ex_iff)
qed

lemma warning_texts_differ:
  "frequencyWarning freq band family \<noteq> severityWarning median band' family'"
  by (simp add: frequencyWarning_def severityWarning_def)

lemma consistency_prefix:
  "w \<in> set (validateLogicalConsistency summary freq median) \<Longrightarrow> prefix ''Inconsistent '' w"
  by (auto simp: validateLogicalConsistency_def Let_def frequencyWarning_def severityWarning_def
        split: if_splits)

lemma region_error_prefix:
  "error (validateRegionMention summary reg) = Some e \<Longrightarrow> \<not> prefix ''Inconsistent '' e"
  by (auto simp: validateRegionMention_def Let_def split: if_splits)

lemma errors_unfold:
  "errors (validateSummary summary reg freq median period)
     = (if \<not> valid (validateRegionMention summary reg)
        then (case error (validateRegionMention summary reg) of None \<Rightarrow> [] | Some e \<Rightarrow> [e])
        else [])
       @ (if \<not> frequencyFound (validateNumericalData summary freq median)
          then [''Missing frequency data: Expected mention of '' @ intToString freq
                @ '' entries/occurrences'']
          else [])
       @ (if \<not> medianFound (validateNumericalData summary freq median)
          then [''Missing median score data: Expected mention of score ''
                @ numberToString median @ ''/10'']
          else [])
       @ (if length summary < 20 then [''Summary too short (less than 20 characters)''] else [])"
  by (simp add: validateSummary_def Let_def)

lemma errors_not_consistency:
  assumes "e \<in> set (errors (validateSummary summary reg freq median period))"
  shows "\<not> prefix ''Inconsistent '' e"
proof -
  let ?frequency = "''Missing frequency data: Expected mention of '' @ intToString freq
                @ '' entries/occurrences''"
  let ?median = "''Missing median score data: Expected mention of score ''
                @ numberToString median @ ''/10''"
  let ?short = "''Summary too short (less than 20 characters)''"
  have parts: "set (errors (validateSummary summary reg freq median period))
                 \<subseteq> {x. error (validateRegionMention summary reg) = Some x}
                    \<union> {?frequency, ?median, ?short}"
    unfolding errors_unfold
    by (cases "valid (validateRegionMention summary reg)";
        cases "error (validateRegionMention summary reg)";
        cases "frequencyFound (validateNumericalData summary freq median)";
        cases "medianFound (validateNumericalData summary freq median)";
        cases "length summary < 20") simp_all
  from assms parts consider "error (validateRegionMention summary reg) = Some e"
    | "e = ?frequency" | "e = ?median" | "e = ?short"
    by blast
  then show ?thesis
  proof cases
    case 1
    then show ?thesis by (rule region_error_prefix)
  qed simp_all
qed

lemma consistency_in_warnings:
  "set (validateLogicalConsistency summary freq median)
     \<subseteq> set (warnings (validateSummary summary reg freq median period))"
  by (auto simp: validateSummary_def Let_def)

text \<open>
  C8: the consistency check contributes warnings only: its messages are among the warnings
  of the verdict and none is among the errors. With a frequency of 7 or more the frequency
  warning is emitted exactly when a low-frequency descriptor (\<open>rare\<close> is one) has a
  word-boundary match in the text, and with a median of 3 or less the severity warning is
  emitted exactly when a high-severity descriptor (\<open>severe\<close> is one) has one; a descriptor
  that only occurs inside a longer word has no such match and triggers nothing.
\<close>

theorem validateLogicalConsistency_warnings_only:
  "set (validateLogicalConsistency summary freq median)
     \<subseteq> set (warnings (validateSummary summary reg freq median period))
   \<and> set (validateLogicalConsistency summary freq median)
       \<inter> set (errors (validateSummary summary reg freq median period)) = {}
   \<and> (7 \<le> freq \<longrightarrow>
        (frequencyWarning freq ''high'' ''low''
           \<in> set (validateLogicalConsistency summary freq median))
        = (\<exists>d \<in> set frequencyLow. wordBoundaryMatch d summary))
   \<and> (median \<le> 3 \<longrightarrow>
        (severityWarning median ''mild'' ''severe''
           \<in> set (validateLogicalConsistency summary freq median))
        = (\<exists>d \<in> set severityHigh. wordBoundaryMatch d summary))
   \<and> ''rare'' \<in> set frequencyLow
   \<and> ''severe'' \<in> set severityHigh"
proof (intro conjI impI)
  show "set (validateLogicalConsistency summary freq median)
          \<subseteq> set (warnings (validateSummary summary reg freq median period))"
    by (rule consistency_in_warnings)
  show "set (validateLogicalConsistency summary freq median)
          \<inter> set (errors (validateSummary summary reg freq median period)) = {}"
    using consistency_prefix [of _ summary freq median]
      errors_not_consistency [of _ summary reg freq median period]
    by blast
  show "''rare'' \<in> set frequencyLow" by (simp add: frequencyLow_def)
  show "''severe'' \<in> set severityHigh" by (simp add: severityHigh_def)
next
  assume "7 \<le> freq"
  then show "(frequencyWarning freq ''high'' ''low''
           \<in> set (validateLogicalConsistency summary freq median))
        = (\<exists>d \<in> set frequencyLow. wordBoundaryMatch d summary)"
    using anyDescriptor_iff [of frequencyLow summary]
    by (auto simp: validateLogicalConsistency_def Let_def warning_texts_differ)
next
  assume "median \<le> 3"
  then show "(severityWarning median ''mild'' ''severe''
           \<in> set (validateLogicalConsistency summary freq median))
        = (\<exists>d \<in> set severityHigh. wordBoundaryMatch d summary)"
    using anyDescriptor_iff [of severityHigh summary]
    by (auto simp: validateLogicalConsistency_def Let_def warning_texts_differ [symmetric])
qed


lemma warnedCandidate_consistency:
  "validateLogicalConsistency warnedCandidate 7 3
     = [frequencyWarning 7 ''high'' ''low'', severityWarning 3 ''mild'' ''severe'']"
  by code_simp

lemma embeddedCandidate_consistency:
  "validateLogicalConsistency embeddedCandidate 7 3 = []"
  by code_simp

theorem validateLogicalConsistency_warnings_only_witness:
  "frequencyWarning 7 ''high'' ''low''
     \<in> set (warnings (validateSummary warnedCandidate ''Neck'' 7 3 ''Last Week''))
   \<and> severityWarning 3 ''mild'' ''severe''
     \<in> set (warnings (validateSummary warnedCandidate ''Neck'' 7 3 ''Last Week''))
   \<and> errors (validateSummary warnedCandidate ''Neck'' 7 3 ''Last Week'') = []
   \<and> (\<exists>d \<in> set frequencyLow. wordBoundaryMatch d warnedCandidate)
   \<and> (\<exists>d \<in> set severityHigh. wordBoundaryMatch d warnedCandidate)
   \<and> validateLogicalConsistency embeddedCandidate 7 3 = []
   \<and> \<not> (\<exists>d \<in> set frequencyLow. wordBoundaryMatch d embeddedCandidate)
   \<and> \<not> (\<exists>d \<in> set severityHigh. wordBoundaryMatch d embeddedCandidate)"
proof -
  note a = validateLogicalConsistency_warnings_only
             [of warnedCandidate 7 3 "''Neck''" "''Last Week''"]
  note b = validateLogicalConsistency_warnings_only
             [of embeddedCandidate 7 3 "''Neck''" "''Last Week''"]
  from a have "frequencyWarning 7 ''high'' ''low''
     \<in> set (warnings (validateSummary warnedCandidate ''Neck'' 7 3 ''Last Week''))"
    and "severityWarning 3 ''mild'' ''severe''
     \<in> set (warnings (validateSummary warnedCandidate ''Neck'' 7 3 ''Last Week''))"
    by (auto simp: warnedCandidate_consistency)
  moreover from a have "\<exists>d \<in> set frequencyLow. wordBoundaryMatch d warnedCandidate"
    and "\<exists>d \<in> set severityHigh. wordBoundaryMatch d warnedCandidate"
    by (simp_all add: warnedCandidate_consistency)
  moreover from b have "\<not> (\<exists>d \<in> set frequencyLow. wordBoundaryMatch d embeddedCandidate)"
    and "\<not> (\<exists>d \<in> set severityHigh. wordBoundaryMatch d embeddedCandidate)"
    by (simp_all add: embeddedCandidate_consistency)
  ultimately show ?thesis
    using warnedCandidate_errors embeddedCandidate_consistency by simp
qed

end
